theory Spec2Isabelle
  imports Complex_Main "HOL-Library.AList"
begin

section \<open>Values of the host language\<close>

text \<open>
  The touch bridge of \<^verbatim>\<open>idb/cli/commands/hid.py\<close> reads text lines, decodes each with
  \<^verbatim>\<open>json.loads\<close> and coerces two fields with \<^verbatim>\<open>float\<close>. The decoded values are
  the values Python's decoder produces: \<^verbatim>\<open>None\<close>, booleans, unbounded integers, floats,
  strings, lists and dictionaries. A float is a value of the type parameter \<open>'f\<close>: the
  development never computes with floats, it only moves them from the coercion into a point.
  A dictionary is the list of its items, looked up with \<open>map_of\<close>.
  A Python string is a \<open>string\<close> whose characters are the code points below 256.
\<close>

datatype 'f json =
    JNull
  | JBool bool
  | JInt int
  | JFloat 'f
  | JStr string
  | JArr "'f json list"
  | JObj "(string \<times> 'f json) list"

text \<open>
  Exceptions are values. Every class below is a subclass of \<^verbatim>\<open>Exception\<close>; the only
  handler of the bridge that is narrower than \<^verbatim>\<open>except Exception\<close> is
  \<^verbatim>\<open>except json.JSONDecodeError\<close>. The detail of an exception is the text the program
  gave it, an f-string of the program (its literal part and the interpolated value), or
  nothing when the interpreter or a library raised it.
\<close>

datatype exn_class =
  JSONDecodeError | ValueError | TypeError | KeyError | OverflowError | OtherException

datatype 'f detail = Unspecified | Msg string | Fmt string "'f json"

datatype 'f exn = Exn exn_class "'f detail"

fun class_of :: "'f exn \<Rightarrow> exn_class" where
  "class_of (Exn c d) = c"

text \<open>
  The library functions the program calls are parameters of the model: the decoder
  \<^verbatim>\<open>json.loads\<close>, the two conversions behind \<^verbatim>\<open>float(v)\<close> (from an integer, which
  may overflow, and from a string, which may not parse), \<^verbatim>\<open>int(s)\<close> on a string,
  float equality and float literals. Every theorem below holds for all of them.
\<close>

record 'f python =
  json_loads :: "string \<Rightarrow> 'f exn + 'f json"
  float_of_int :: "int \<Rightarrow> 'f exn + 'f"
  float_of_str :: "string \<Rightarrow> 'f exn + 'f"
  int_of_str :: "string \<Rightarrow> 'f exn + int"
  float_eq :: "'f \<Rightarrow> 'f \<Rightarrow> bool"
  float_eq_int :: "'f \<Rightarrow> int \<Rightarrow> bool"
  float_literal :: "string \<Rightarrow> 'f"

text \<open>
  \<^verbatim>\<open>float(v)\<close>: a float is returned as it is, an integer and a boolean (a subclass of
  \<^verbatim>\<open>int\<close>) are converted, a string is parsed, anything else is a \<^verbatim>\<open>TypeError\<close>.
\<close>

fun py_float :: "'f python \<Rightarrow> 'f json \<Rightarrow> 'f exn + 'f" where
  "py_float P (JFloat f) = Inr f"
| "py_float P (JInt n) = float_of_int P n"
| "py_float P (JBool b) = float_of_int P (if b then 1 else 0)"
| "py_float P (JStr s) = float_of_str P s"
| "py_float P JNull = Inl (Exn TypeError Unspecified)"
| "py_float P (JArr vs) = Inl (Exn TypeError Unspecified)"
| "py_float P (JObj kvs) = Inl (Exn TypeError Unspecified)"

text \<open>
  \<^verbatim>\<open>key in event\<close> for a string \<open>key\<close>: membership among the keys of a dictionary, among
  the elements of a list (only an equal string is equal to a string), as a substring of a
  string; the other values are not containers and raise \<^verbatim>\<open>TypeError\<close>.
\<close>

fun py_substring :: "string \<Rightarrow> string \<Rightarrow> bool" where
  "py_substring k [] = (k = [])"
| "py_substring k (c # cs) = (take (length k) (c # cs) = k \<or> py_substring k cs)"

fun py_contains :: "'f json \<Rightarrow> string \<Rightarrow> 'f exn + bool" where
  "py_contains (JObj kvs) k = Inr (map_of kvs k \<noteq> None)"
| "py_contains (JArr vs) k = Inr (JStr k \<in> set vs)"
| "py_contains (JStr s) k = Inr (py_substring k s)"
| "py_contains JNull k = Inl (Exn TypeError Unspecified)"
| "py_contains (JBool b) k = Inl (Exn TypeError Unspecified)"
| "py_contains (JInt n) k = Inl (Exn TypeError Unspecified)"
| "py_contains (JFloat f) k = Inl (Exn TypeError Unspecified)"

text \<open>
  \<^verbatim>\<open>event[key]\<close> for a string \<open>key\<close>: the value of a dictionary (\<^verbatim>\<open>KeyError\<close> when
  absent); a list and a string take integer indices only and the other values are not
  subscriptable, both a \<^verbatim>\<open>TypeError\<close>.
\<close>

fun py_getitem :: "'f json \<Rightarrow> string \<Rightarrow> 'f exn + 'f json" where
  "py_getitem (JObj kvs) k =
     (case map_of kvs k of None \<Rightarrow> Inl (Exn KeyError Unspecified) | Some v \<Rightarrow> Inr v)"
| "py_getitem (JArr vs) k = Inl (Exn TypeError Unspecified)"
| "py_getitem (JStr s) k = Inl (Exn TypeError Unspecified)"
| "py_getitem JNull k = Inl (Exn TypeError Unspecified)"
| "py_getitem (JBool b) k = Inl (Exn TypeError Unspecified)"
| "py_getitem (JInt n) k = Inl (Exn TypeError Unspecified)"
| "py_getitem (JFloat f) k = Inl (Exn TypeError Unspecified)"

text \<open>
  \<^verbatim>\<open>all(key in event for key in keys)\<close>: the generator stops at the first key that is
  absent, and an exception of \<^verbatim>\<open>in\<close> leaves it.
\<close>

fun all_keys_in :: "'f json \<Rightarrow> string list \<Rightarrow> 'f exn + bool" where
  "all_keys_in event [] = Inr True"
| "all_keys_in event (k # ks) =
     (case py_contains event k of
        Inl e \<Rightarrow> Inl e
      | Inr present \<Rightarrow> if present then all_keys_in event ks else Inr False)"

section \<open>Input events\<close>

text \<open>
  Modelled from the spec: \<^verbatim>\<open>idb.common.types\<close> (\<^verbatim>\<open>Point\<close>, \<^verbatim>\<open>HIDTouch\<close>,
  \<^verbatim>\<open>HIDPress\<close>, \<^verbatim>\<open>HIDDirection\<close>, \<^verbatim>\<open>HIDEvent\<close>, \<^verbatim>\<open>HIDButtonType\<close>) is imported by
  \<^verbatim>\<open>hid.py\<close> and is not among the sources. The spec's data model: a point is a pair of
  floats (the fields \<^verbatim>\<open>x\<close> and \<^verbatim>\<open>y\<close>, here \<open>point_x\<close> and \<open>point_y\<close>); a direction is \<open>DOWN\<close> or \<open>UP\<close>; an action is a touch at a point, a button or a
  key; a primitive event is a press of an action in a direction, or a delay in seconds.
  The members of the button enumeration are not listed, so a button is the name of its
  member (\<^verbatim>\<open>ButtonCommand\<close> selects it by name: \<^verbatim>\<open>HIDButtonType[args.button]\<close>).
\<close>

record 'f Point =
  point_x :: 'f
  point_y :: 'f

datatype HIDDirection = DOWN | UP

type_synonym HIDButtonType = string

datatype 'f HIDAction =
    HIDTouch "'f Point"
  | HIDButton HIDButtonType
  | HIDKey int

datatype 'f HIDEvent =
    HIDPress "'f HIDAction" HIDDirection
  | HIDDelay 'f

section \<open>The touch bridge\<close>

text \<open>
  \<^verbatim>\<open>direction_map\<close> of \<^verbatim>\<open>convert_touch_event_to_hid\<close>, and the test
  \<^verbatim>\<open>event_type not in direction_map\<close> followed by the lookup: a dictionary hashes the key,
  so a list or a dictionary as key raises \<^verbatim>\<open>TypeError\<close>; a string is found when it is
  one of the three keys; any other hashable value is not a key.
\<close>

definition direction_map :: "(string \<times> HIDDirection) list" where
  "direction_map = [(''touch_start'', DOWN), (''touch_move'', DOWN), (''touch_end'', UP)]"

fun direction_lookup :: "'f json \<Rightarrow> 'f exn + HIDDirection option" where
  "direction_lookup (JStr s) = Inr (map_of direction_map s)"
| "direction_lookup (JArr vs) = Inl (Exn TypeError Unspecified)"
| "direction_lookup (JObj kvs) = Inl (Exn TypeError Unspecified)"
| "direction_lookup JNull = Inr None"
| "direction_lookup (JBool b) = Inr None"
| "direction_lookup (JInt n) = Inr None"
| "direction_lookup (JFloat f) = Inr None"

text \<open>
  \<^verbatim>\<open>convert_touch_event_to_hid\<close>, in the order of the source: the check of the three
  required fields, the point from \<^verbatim>\<open>float(event["x"])\<close> and \<^verbatim>\<open>float(event["y"])\<close>, then
  the direction from the event type.
\<close>

definition convert_touch_event_to_hid :: "'f python \<Rightarrow> 'f json \<Rightarrow> 'f exn + 'f HIDEvent" where
  "convert_touch_event_to_hid P event =
     (case all_keys_in event [''type'', ''x'', ''y''] of
        Inl e \<Rightarrow> Inl e
      | Inr present \<Rightarrow>
          if \<not> present
          then Inl (Exn ValueError (Fmt ''Missing required fields in event: '' event))
          else
            (case py_getitem event ''x'' of Inl e \<Rightarrow> Inl e | Inr xv \<Rightarrow>
            (case py_float P xv of Inl e \<Rightarrow> Inl e | Inr fx \<Rightarrow>
            (case py_getitem event ''y'' of Inl e \<Rightarrow> Inl e | Inr yv \<Rightarrow>
            (case py_float P yv of Inl e \<Rightarrow> Inl e | Inr fy \<Rightarrow>
            (let touch = HIDTouch \<lparr>point_x = fx, point_y = fy\<rparr> in
            (case py_getitem event ''type'' of Inl e \<Rightarrow> Inl e | Inr event_type \<Rightarrow>
            (case direction_lookup event_type of
               Inl e \<Rightarrow> Inl e
             | Inr None \<Rightarrow> Inl (Exn ValueError (Fmt ''Unknown touch event type: '' event_type))
             | Inr (Some direction) \<Rightarrow> Inr (HIDPress touch direction)))))))))"

text \<open>
  \<^verbatim>\<open>str.strip()\<close> removes the white space at both ends: among the code points below 256
  these are the characters 9 to 13, 28 to 32, 133 and 160.
\<close>

definition isspace :: "char \<Rightarrow> bool" where
  "isspace c = ((of_char c :: nat) \<in> {9, 10, 11, 12, 13, 28, 29, 30, 31, 32, 133, 160})"

definition strip :: "string \<Rightarrow> string" where
  "strip s = rev (dropWhile isspace (rev (dropWhile isspace s)))"

text \<open>
  One call of \<^verbatim>\<open>sys.stdin.readline\<close> returns a text, the empty text at the end of the
  input, or raises. What the generator produces, in order, is the events it yields and
  the records it logs (the level, the literal part of the message, the exception
  interpolated into it).
\<close>

datatype 'f read = Text string | ReadFault "'f exn"

datatype level = INFO | WARNING | ERROR

datatype 'f produced = Yield "'f HIDEvent" | Log level string "'f exn option"

datatype control = Continue | Break

text \<open>
  The body of the outer \<^verbatim>\<open>try\<close> once the line is read. \<open>Inl\<close> is an exception that
  leaves the body: the handler of the decoder takes \<^verbatim>\<open>JSONDecodeError\<close> only, so any other
  exception of \<^verbatim>\<open>json.loads\<close> goes on to the outer handler; the handler around the
  conversion takes every exception.
\<close>

definition process_line :: "'f python \<Rightarrow> string \<Rightarrow> 'f exn + ('f produced list \<times> control)" where
  "process_line P line =
     (if line = [] then Inr ([Log INFO ''Received EOF, ending stream'' None], Break)
      else
        (let line = strip line in
         if line = [] then Inr ([], Continue)
         else
           (case json_loads P line of
              Inl e \<Rightarrow>
                if class_of e = JSONDecodeError
                then Inr ([Log WARNING ''Invalid JSON: '' (Some e)], Continue)
                else Inl e
            | Inr event_dict \<Rightarrow>
                (case convert_touch_event_to_hid P event_dict of
                   Inr hid_event \<Rightarrow> Inr ([Yield hid_event], Continue)
                 | Inl e \<Rightarrow> Inr ([Log WARNING ''Failed to convert event: '' (Some e)], Continue)))))"

text \<open>
  One iteration of \<^verbatim>\<open>while True\<close>: the read and the body, inside the outer
  \<^verbatim>\<open>except Exception\<close>, which logs and breaks.
\<close>

definition iteration :: "'f python \<Rightarrow> 'f read \<Rightarrow> 'f produced list \<times> control" where
  "iteration P r =
     (case (case r of ReadFault e \<Rightarrow> Inl e | Text line \<Rightarrow> process_line P line) of
        Inl e \<Rightarrow> ([Log ERROR ''Error reading stdin: '' (Some e)], Break)
      | Inr res \<Rightarrow> res)"

text \<open>
  The loop over the successive results of \<^verbatim>\<open>readline\<close>. The list is what the feed has
  delivered so far: when it is used up the generator is still \<open>Reading\<close> (waiting for the
  next line); after a \<^verbatim>\<open>break\<close> it is \<open>Closed\<close> and reads nothing more.
\<close>

datatype bridge_state = Reading | Closed

fun stream_loop :: "'f python \<Rightarrow> 'f read list \<Rightarrow> 'f produced list \<times> bridge_state" where
  "stream_loop P [] = ([], Reading)"
| "stream_loop P (r # rs) =
     (case iteration P r of
        (outs, Break) \<Rightarrow> (outs, Closed)
      | (outs, Continue) \<Rightarrow> (outs @ fst (stream_loop P rs), snd (stream_loop P rs)))"

definition read_touch_events_from_stdin ::
  "'f python \<Rightarrow> 'f read list \<Rightarrow> 'f produced list \<times> bridge_state" where
  "read_touch_events_from_stdin P rs =
     (Log INFO ''Starting touch event stream from stdin...'' None # fst (stream_loop P rs),
      snd (stream_loop P rs))"

fun events_of :: "'f produced list \<Rightarrow> 'f HIDEvent list" where
  "events_of [] = []"
| "events_of (Yield ev # outs) = ev # events_of outs"
| "events_of (Log l m e # outs) = events_of outs"


section \<open>The contract of the bridge\<close>

text \<open>
  The mapping of the spec: a JSON object with the fields \<^verbatim>\<open>type\<close>, \<^verbatim>\<open>x\<close> and
  \<^verbatim>\<open>y\<close>, whose coordinates \<^verbatim>\<open>float\<close> accepts, is a press of a touch at the coerced
  point: \<open>DOWN\<close> for \<^verbatim>\<open>touch_start\<close> and \<^verbatim>\<open>touch_move\<close>, \<open>UP\<close> for
  \<^verbatim>\<open>touch_end\<close>. Everything else maps to no event. This definition follows the words of
  the spec, not the code; \<open>convert_refines_spec\<close> below compares the two.
\<close>

definition touch_types :: "string list" where
  "touch_types = [''touch_start'', ''touch_move'', ''touch_end'']"

definition spec_event :: "'f python \<Rightarrow> 'f json \<Rightarrow> 'f HIDEvent option" where
  "spec_event P v =
     (case v of
        JObj kvs \<Rightarrow>
          (case (map_of kvs ''type'', map_of kvs ''x'', map_of kvs ''y'') of
             (Some (JStr t), Some xv, Some yv) \<Rightarrow>
               (case (py_float P xv, py_float P yv) of
                  (Inr fx, Inr fy) \<Rightarrow>
                    if t = ''touch_start'' \<or> t = ''touch_move''
                    then Some (HIDPress (HIDTouch \<lparr>point_x = fx, point_y = fy\<rparr>) DOWN)
                    else if t = ''touch_end''
                    then Some (HIDPress (HIDTouch \<lparr>point_x = fx, point_y = fy\<rparr>) UP)
                    else None
                | _ \<Rightarrow> None)
           | _ \<Rightarrow> None)
      | _ \<Rightarrow> None)"

definition line_event :: "'f python \<Rightarrow> string \<Rightarrow> 'f HIDEvent option" where
  "line_event P line =
     (case json_loads P (strip line) of Inr v \<Rightarrow> spec_event P v | Inl e \<Rightarrow> None)"

text \<open>
  A line that is a JSON object with a known \<^verbatim>\<open>type\<close> and with fields \<^verbatim>\<open>x\<close> and
  \<^verbatim>\<open>y\<close> (of any value), and a line whose two coordinates \<^verbatim>\<open>float\<close> accepts.
\<close>

definition is_touch_object :: "'f json \<Rightarrow> bool" where
  "is_touch_object v =
     (case v of
        JObj kvs \<Rightarrow>
          (case map_of kvs ''type'' of Some (JStr t) \<Rightarrow> t \<in> set touch_types | _ \<Rightarrow> False)
          \<and> map_of kvs ''x'' \<noteq> None \<and> map_of kvs ''y'' \<noteq> None
      | _ \<Rightarrow> False)"

definition touch_line :: "'f python \<Rightarrow> string \<Rightarrow> bool" where
  "touch_line P line =
     (strip line \<noteq> [] \<and>
      (case json_loads P (strip line) of Inr v \<Rightarrow> is_touch_object v | Inl e \<Rightarrow> False))"

definition coercible :: "'f python \<Rightarrow> 'f json \<Rightarrow> bool" where
  "coercible P v = (case py_float P v of Inr f \<Rightarrow> True | Inl e \<Rightarrow> False)"

definition coercible_line :: "'f python \<Rightarrow> string \<Rightarrow> bool" where
  "coercible_line P line =
     (case json_loads P (strip line) of
        Inr (JObj kvs) \<Rightarrow>
          (case (map_of kvs ''x'', map_of kvs ''y'') of
             (Some xv, Some yv) \<Rightarrow> coercible P xv \<and> coercible P yv
           | _ \<Rightarrow> False)
      | _ \<Rightarrow> False)"

text \<open>
  The faults of a line that one of the two inner handlers catches: the decoder raises
  \<^verbatim>\<open>JSONDecodeError\<close>, or the decoded value lacks one of the required fields (a value
  that is not an object has no fields), or its \<^verbatim>\<open>type\<close> is not one of the three. This
  is narrower than the faulty lines of the spec: a line on which \<^verbatim>\<open>json.loads\<close> raises an
  exception of another class is not among them.
\<close>

definition lacks_required_field :: "'f json \<Rightarrow> bool" where
  "lacks_required_field v =
     (case v of
        JObj kvs \<Rightarrow> map_of kvs ''type'' = None \<or> map_of kvs ''x'' = None \<or> map_of kvs ''y'' = None
      | _ \<Rightarrow> True)"

definition unrecognized_type :: "'f json \<Rightarrow> bool" where
  "unrecognized_type v =
     (case v of
        JObj kvs \<Rightarrow>
          (case map_of kvs ''type'' of
             None \<Rightarrow> False
           | Some (JStr t) \<Rightarrow> t \<notin> set touch_types
           | Some _ \<Rightarrow> True)
      | _ \<Rightarrow> False)"

definition caught_fault_line :: "'f python \<Rightarrow> string \<Rightarrow> bool" where
  "caught_fault_line P line =
     (strip line \<noteq> [] \<and>
      (case json_loads P (strip line) of
         Inl e \<Rightarrow> class_of e = JSONDecodeError
       | Inr v \<Rightarrow> lacks_required_field v \<or> unrecognized_type v))"

definition is_press :: "'f HIDEvent \<Rightarrow> bool" where
  "is_press ev = (case ev of HIDPress a d \<Rightarrow> True | HIDDelay s \<Rightarrow> False)"

section \<open>A sample runtime\<close>

text \<open>
  The theorems hold for every decoder and every conversion. To run the model on concrete
  feeds, \<open>sample_python\<close> fixes them on the inputs used below: the decoder returns what
  \<^verbatim>\<open>json.loads\<close> returns on the nine texts of \<open>sample_table\<close> and reports any other
  text as not decodable (as it is for \<^verbatim>\<open>not json\<close>); \<^verbatim>\<open>int\<close> and \<^verbatim>\<open>float\<close> read
  a string of decimal digits with an optional minus sign and reject the rest; a float is a
  real number, small integers convert exactly, and a literal denotes its decimal value.
\<close>

definition newline :: string where
  "newline = [CHR 0x0A]"

definition text_start :: string where
  \<open>text_start = ''{"type":"touch_start","x":1,"y":2}''\<close>

definition text_move :: string where
  \<open>text_move = ''{"type":"touch_move","x":3,"y":4}''\<close>

definition text_end :: string where
  \<open>text_end = ''{"type":"touch_end","x":5,"y":6}''\<close>

definition text_null :: string where
  \<open>text_null = ''{"type":"touch_start","x":null,"y":2}''\<close>

definition text_coerced :: string where
  \<open>text_coerced = ''{"type":"touch_end","x":"7","y":true}''\<close>

definition text_word :: string where
  \<open>text_word = ''{"type":"touch_move","x":"abc","y":0}''\<close>

definition text_missing :: string where
  \<open>text_missing = ''{"type":"touch_start","x":1}''\<close>

definition text_pinch :: string where
  \<open>text_pinch = ''{"type":"pinch","x":1,"y":2}''\<close>

definition text_list :: string where
  \<open>text_list = ''["type","x","y"]''\<close>

definition text_blank :: string where
  "text_blank = ''  '' @ [CHR 0x09] @ newline"


definition sample_table :: "(string \<times> real json) list" where
  "sample_table =
     [(text_start, JObj [(''type'', JStr ''touch_start''), (''x'', JInt 1), (''y'', JInt 2)]),
      (text_move, JObj [(''type'', JStr ''touch_move''), (''x'', JInt 3), (''y'', JInt 4)]),
      (text_end, JObj [(''type'', JStr ''touch_end''), (''x'', JInt 5), (''y'', JInt 6)]),
      (text_null, JObj [(''type'', JStr ''touch_start''), (''x'', JNull), (''y'', JInt 2)]),
      (text_coerced, JObj [(''type'', JStr ''touch_end''), (''x'', JStr ''7''), (''y'', JBool True)]),
      (text_word, JObj [(''type'', JStr ''touch_move''), (''x'', JStr ''abc''), (''y'', JInt 0)]),
      (text_missing, JObj [(''type'', JStr ''touch_start''), (''x'', JInt 1)]),
      (text_pinch, JObj [(''type'', JStr ''pinch''), (''x'', JInt 1), (''y'', JInt 2)]),
      (text_list, JArr [JStr ''type'', JStr ''x'', JStr ''y''])]"

fun digits_value :: "nat \<Rightarrow> string \<Rightarrow> nat option" where
  "digits_value acc [] = Some acc"
| "digits_value acc (c # cs) =
     (if 48 \<le> (of_char c :: nat) \<and> (of_char c :: nat) \<le> 57
      then digits_value (10 * acc + (of_char c - 48)) cs
      else None)"

definition sample_int :: "string \<Rightarrow> real exn + int" where
  "sample_int s =
     (case s of
        [] \<Rightarrow> Inl (Exn ValueError Unspecified)
      | c # cs \<Rightarrow>
          if c = CHR ''-'' \<and> cs \<noteq> []
          then (case digits_value 0 cs of
                  None \<Rightarrow> Inl (Exn ValueError Unspecified)
                | Some n \<Rightarrow> Inr (- int n))
          else (case digits_value 0 (c # cs) of
                  None \<Rightarrow> Inl (Exn ValueError Unspecified)
                | Some n \<Rightarrow> Inr (int n)))"

definition sample_literals :: "(string \<times> real) list" where
  "sample_literals = [(''0.7'', 7 / 10), (''0.8'', 8 / 10), (''0.9'', 9 / 10)]"

definition sample_python :: "real python" where
  "sample_python =
     \<lparr>json_loads = (\<lambda>s. case map_of sample_table s of
                           None \<Rightarrow> Inl (Exn JSONDecodeError Unspecified)
                         | Some v \<Rightarrow> Inr v),
      float_of_int = (\<lambda>n. Inr (real_of_int n)),
      float_of_str = (\<lambda>s. case sample_int s of Inl e \<Rightarrow> Inl e | Inr n \<Rightarrow> Inr (real_of_int n)),
      int_of_str = sample_int,
      float_eq = (=),
      float_eq_int = (\<lambda>f n. f = real_of_int n),
      float_literal = (\<lambda>s. case map_of sample_literals s of None \<Rightarrow> 0 | Some r \<Rightarrow> r)\<rparr>"


text \<open>
  CPython 3.11 refuses to convert a decimal text of more than 4300 digits to an integer:
  on a line that is such a number \<^verbatim>\<open>json.loads\<close> raises \<^verbatim>\<open>ValueError\<close>, which is not a
  \<^verbatim>\<open>JSONDecodeError\<close>. \<open>limited_python\<close> is the sample runtime with this limit, and
  \<open>long_number\<close> a number of 5000 digits.
\<close>

definition isdigit :: "char \<Rightarrow> bool" where
  "isdigit c = (48 \<le> (of_char c :: nat) \<and> (of_char c :: nat) \<le> 57)"

definition long_number :: string where
  "long_number = replicate 5000 (CHR ''1'')"

definition limited_python :: "real python" where
  "limited_python =
     sample_python
       \<lparr>json_loads :=
          (\<lambda>s. if 4300 < length s \<and> list_all isdigit s
                then Inl (Exn ValueError Unspecified)
                else json_loads sample_python s)\<rparr>"

section \<open>The key commands\<close>

text \<open>
  \<^verbatim>\<open>KeyCommand.run_with_client\<close> awaits \<^verbatim>\<open>client.key(keycode=args.key,
  duration=args.duration)\<close> and \<^verbatim>\<open>KeySequenceCommand.run_with_client\<close> awaits
  \<^verbatim>\<open>client.key_sequence(key_sequence=list(map(int, args.key_sequence)))\<close>. The client is
  outside the sources, so a run is the list of the calls it makes on the client, or the
  exception that leaves it. \<^verbatim>\<open>args.key\<close> is an integer (the parser declares
  \<^verbatim>\<open>type=int\<close>); the key sequence is a list of strings (\<^verbatim>\<open>nargs="*"\<close>, no type), each
  converted by \<^verbatim>\<open>int\<close>, and the first string \<^verbatim>\<open>int\<close> rejects raises before the
  client is called.
\<close>

record 'f key_args =
  key :: int
  duration :: "'f option"

record key_sequence_args =
  key_sequence :: "string list"

datatype 'f client_call =
    Client_key int "'f option"
  | Client_key_sequence "int list"

definition KeyCommand_run_with_client :: "'f key_args \<Rightarrow> 'f client_call list" where
  "KeyCommand_run_with_client args = [Client_key (key args) (duration args)]"

fun int_list :: "'f python \<Rightarrow> string list \<Rightarrow> 'f exn + int list" where
  "int_list P [] = Inr []"
| "int_list P (s # ss) =
     (case int_of_str P s of
        Inl e \<Rightarrow> Inl e
      | Inr k \<Rightarrow> (case int_list P ss of Inl e \<Rightarrow> Inl e | Inr ks \<Rightarrow> Inr (k # ks)))"

definition KeySequenceCommand_run_with_client ::
  "'f python \<Rightarrow> key_sequence_args \<Rightarrow> 'f exn + 'f client_call list" where
  "KeySequenceCommand_run_with_client P args =
     (case int_list P (key_sequence args) of
        Inl e \<Rightarrow> Inl e
      | Inr ks \<Rightarrow> Inr [Client_key_sequence ks])"

section \<open>The stream configuration\<close>

text \<open>
  \<^verbatim>\<open>VideoStreamCommand._build_stream_config\<close> of \<^verbatim>\<open>idb/cli/commands/video.py\<close>. The
  namespace holds the attributes the parser of the command declares, with the types it
  declares (the arguments of the base class \<^verbatim>\<open>ClientCommand\<close> are not among the
  sources and are left out); \<^verbatim>\<open>hasattr\<close> and \<^verbatim>\<open>getattr\<close> look an attribute up by its name among them
  (\<open>namespace_vars\<close>). The values of a configuration are Python values, compared by
  Python's \<^verbatim>\<open>==\<close> (\<open>py_eq\<close>: numbers and booleans compare by value across their types,
  floats by the float comparison of the runtime). A configuration is the list of the items
  of the dictionary, updated in place by \<open>AList.update\<close>.
\<close>

datatype 'f pyval = PNone | PBool bool | PInt int | PFloat 'f | PStr string

record 'f stream_args =
  fps :: "int option"
  format :: string
  output_file :: "string option"
  compression_quality :: 'f
  scale_factor :: 'f
  keyframe_interval :: int
  profile :: string
  max_bitrate :: int
  buffer_size :: int
  no_b_frames :: bool
  realtime_optimization :: bool
  preset :: "string option"

definition optional_int :: "int option \<Rightarrow> 'f pyval" where
  "optional_int n = (case n of None \<Rightarrow> PNone | Some k \<Rightarrow> PInt k)"

definition optional_str :: "string option \<Rightarrow> 'f pyval" where
  "optional_str s = (case s of None \<Rightarrow> PNone | Some t \<Rightarrow> PStr t)"

definition namespace_vars :: "'f stream_args \<Rightarrow> (string \<times> 'f pyval) list" where
  "namespace_vars args =
     [(''fps'', optional_int (fps args)),
      (''format'', PStr (format args)),
      (''output_file'', optional_str (output_file args)),
      (''compression_quality'', PFloat (compression_quality args)),
      (''scale_factor'', PFloat (scale_factor args)),
      (''keyframe_interval'', PInt (keyframe_interval args)),
      (''profile'', PStr (profile args)),
      (''max_bitrate'', PInt (max_bitrate args)),
      (''buffer_size'', PInt (buffer_size args)),
      (''no_b_frames'', PBool (no_b_frames args)),
      (''realtime_optimization'', PBool (realtime_optimization args)),
      (''preset'', optional_str (preset args))]"

definition py_getattr :: "'f stream_args \<Rightarrow> string \<Rightarrow> 'f pyval option" where
  "py_getattr args name = map_of (namespace_vars args) name"

definition py_hasattr :: "'f stream_args \<Rightarrow> string \<Rightarrow> bool" where
  "py_hasattr args name = (py_getattr args name \<noteq> None)"

fun py_eq :: "'f python \<Rightarrow> 'f pyval \<Rightarrow> 'f pyval \<Rightarrow> bool" where
  "py_eq P PNone PNone = True"
| "py_eq P (PStr s) (PStr t) = (s = t)"
| "py_eq P (PBool a) (PBool b) = (a = b)"
| "py_eq P (PInt m) (PInt n) = (m = n)"
| "py_eq P (PBool a) (PInt n) = ((if a then 1 else 0) = n)"
| "py_eq P (PInt m) (PBool b) = (m = (if b then 1 else 0))"
| "py_eq P (PFloat f) (PFloat g) = float_eq P f g"
| "py_eq P (PFloat f) (PInt n) = float_eq_int P f n"
| "py_eq P (PInt m) (PFloat g) = float_eq_int P g m"
| "py_eq P (PFloat f) (PBool b) = float_eq_int P f (if b then 1 else 0)"
| "py_eq P (PBool a) (PFloat g) = float_eq_int P g (if a then 1 else 0)"
| "py_eq P v w = False"

definition replace_underscore :: "string \<Rightarrow> string" where
  "replace_underscore s = map (\<lambda>c. if c = CHR ''_'' then CHR ''-'' else c) s"

definition config_get :: "(string \<times> 'f pyval) list \<Rightarrow> string \<Rightarrow> 'f pyval" where
  "config_get config k = (case map_of config k of None \<Rightarrow> PNone | Some v \<Rightarrow> v)"

definition base_config :: "'f stream_args \<Rightarrow> (string \<times> 'f pyval) list" where
  "base_config args =
     [(''fps'', optional_int (fps args)),
      (''format'', PStr (format args)),
      (''compression_quality'', PFloat (compression_quality args)),
      (''scale_factor'', PFloat (scale_factor args)),
      (''keyframe_interval'', PInt (keyframe_interval args)),
      (''h264_profile'', PStr (profile args)),
      (''max_bitrate'', PInt (max_bitrate args)),
      (''buffer_size'', PInt (buffer_size args)),
      (''allow_frame_reordering'', PBool (\<not> no_b_frames args)),
      (''realtime_optimization'', PBool (realtime_optimization args))]"

text \<open>
  The three presets of \<^verbatim>\<open>preset_configs\<close>, in the order of their items.
\<close>

definition streaming_preset :: "'f python \<Rightarrow> (string \<times> 'f pyval) list" where
  "streaming_preset P =
     [(''fps'', PInt 30),
      (''keyframe_interval'', PInt 30),
      (''h264_profile'', PStr ''baseline''),
      (''max_bitrate'', PInt 4000),
      (''buffer_size'', PInt 2000),
      (''compression_quality'', PFloat (float_literal P ''0.8'')),
      (''allow_frame_reordering'', PBool False),
      (''realtime_optimization'', PBool True)]"

definition low_latency_preset :: "'f python \<Rightarrow> (string \<times> 'f pyval) list" where
  "low_latency_preset P =
     [(''fps'', PInt 60),
      (''keyframe_interval'', PInt 15),
      (''h264_profile'', PStr ''baseline''),
      (''max_bitrate'', PInt 6000),
      (''buffer_size'', PInt 1000),
      (''compression_quality'', PFloat (float_literal P ''0.7'')),
      (''allow_frame_reordering'', PBool False),
      (''realtime_optimization'', PBool True)]"

definition high_quality_preset :: "'f python \<Rightarrow> (string \<times> 'f pyval) list" where
  "high_quality_preset P =
     [(''fps'', PInt 30),
      (''keyframe_interval'', PInt 60),
      (''h264_profile'', PStr ''high''),
      (''max_bitrate'', PInt 8000),
      (''buffer_size'', PInt 4000),
      (''compression_quality'', PFloat (float_literal P ''0.9'')),
      (''allow_frame_reordering'', PBool False),
      (''realtime_optimization'', PBool True)]"

definition preset_configs :: "'f python \<Rightarrow> (string \<times> (string \<times> 'f pyval) list) list" where
  "preset_configs P =
     [(''streaming'', streaming_preset P),
      (''low-latency'', low_latency_preset P),
      (''high-quality'', high_quality_preset P)]"

text \<open>
  The guard of the loop over the items of the preset:
  \<^verbatim>\<open>not hasattr(args, key.replace('_', '-')) or getattr(args, key.replace('_', '-')) == config.get(key)\<close>,
  and the loop itself, which stores the preset's value when the guard holds.
  \<open>override_all\<close> is the same loop without the guard.
\<close>

definition override_guard ::
  "'f python \<Rightarrow> 'f stream_args \<Rightarrow> (string \<times> 'f pyval) list \<Rightarrow> string \<Rightarrow> bool" where
  "override_guard P args config k =
     (\<not> py_hasattr args (replace_underscore k) \<or>
      (case py_getattr args (replace_underscore k) of
         None \<Rightarrow> False
       | Some v \<Rightarrow> py_eq P v (config_get config k)))"

fun apply_preset ::
  "'f python \<Rightarrow> 'f stream_args \<Rightarrow> (string \<times> 'f pyval) list \<Rightarrow> (string \<times> 'f pyval) list
     \<Rightarrow> (string \<times> 'f pyval) list" where
  "apply_preset P args [] config = config"
| "apply_preset P args ((k, v) # items) config =
     apply_preset P args items
       (if override_guard P args config k then AList.update k v config else config)"

fun override_all :: "(string \<times> 'f pyval) list \<Rightarrow> (string \<times> 'f pyval) list \<Rightarrow> (string \<times> 'f pyval) list" where
  "override_all [] config = config"
| "override_all ((k, v) # items) config = override_all items (AList.update k v config)"

text \<open>
  The preset applies when \<^verbatim>\<open>args.preset\<close> is set to a non-empty name that is a key of
  \<^verbatim>\<open>preset_configs\<close>.
\<close>

definition build_stream_config :: "'f python \<Rightarrow> 'f stream_args \<Rightarrow> (string \<times> 'f pyval) list" where
  "build_stream_config P args =
     (let config = base_config args in
      case preset args of
        None \<Rightarrow> config
      | Some p \<Rightarrow>
          if p = [] then config
          else (case map_of (preset_configs P) p of
                  None \<Rightarrow> config
                | Some items \<Rightarrow> apply_preset P args items config))"

text \<open>
  A namespace in which the user has set every option, and asks for a preset.
\<close>

definition sample_args :: "real stream_args" where
  "sample_args =
     \<lparr>fps = Some 24, format = ''h264'', output_file = None, compression_quality = 1 / 2,
      scale_factor = 1, keyframe_interval = 45, profile = ''main'', max_bitrate = 9000,
      buffer_size = 500, no_b_frames = False, realtime_optimization = False,
      preset = Some ''low-latency''\<rparr>"

section \<open>The swipe interpolator\<close>

text \<open>
  Modelled from the spec: the swipe interpolator is not among the sources
  (\<^verbatim>\<open>SwipeCommand.run_with_client\<close> hands the start, the end, the duration and the delta
  to \<^verbatim>\<open>client.swipe\<close>). The spec's words: the interpolator produces the intermediate
  points \<^emph>\<open>strictly between\<close> the start and the end, \<^emph>\<open>excluding the endpoints themselves\<close>;
  with \<open>d\<close> the Euclidean distance of the two points it produces nothing when
  \<open>d \<le> delta\<close> or \<open>delta \<le> 0\<close>, and otherwise the points at the parameters
  \<open>i * delta / d\<close> of the segment for \<open>i\<close> from 1 to \<open>floor (d / delta)\<close>, the point at
  \<open>i = floor (d / delta)\<close> \<^emph>\<open>only if it is strictly interior\<close>. So the last index is
  \<open>floor (d / delta)\<close> when that point lies before the end, and one less when it is the
  end point (\<open>steps\<close>). Coordinates are real numbers here; the rounding of floating point
  is not modelled.
\<close>

definition distance :: "real Point \<Rightarrow> real Point \<Rightarrow> real" where
  "distance a b = sqrt ((point_x b - point_x a)\<^sup>2 + (point_y b - point_y a)\<^sup>2)"

definition lerp :: "real Point \<Rightarrow> real Point \<Rightarrow> real \<Rightarrow> real Point" where
  "lerp a b t =
     \<lparr>point_x = point_x a + t * (point_x b - point_x a),
      point_y = point_y a + t * (point_y b - point_y a)\<rparr>"

definition steps :: "real \<Rightarrow> real \<Rightarrow> nat" where
  "steps d delta =
     (let n = nat \<lfloor>d / delta\<rfloor> in if real n * delta < d then n else n - 1)"

definition interpolate :: "real Point \<Rightarrow> real Point \<Rightarrow> real \<Rightarrow> real Point list" where
  "interpolate p_start p_end delta =
     (let d = distance p_start p_end in
      if d \<le> delta \<or> delta \<le> 0 then []
      else map (\<lambda>i. lerp p_start p_end ((real i * delta) / d)) [1 ..< Suc (steps d delta)])"


section \<open>The conversion refines the contract\<close>

lemma events_of_append: "events_of (xs @ ys) = events_of xs @ events_of ys"
  by (induction xs rule: events_of.induct) simp_all

lemma all_keys_obj:
  "all_keys_in (JObj kvs) ks = Inr (\<forall>k\<in>set ks. map_of kvs k \<noteq> None)"
  by (induction ks) auto

lemma convert_obj:
  "convert_touch_event_to_hid P (JObj kvs) = Inr ev \<longleftrightarrow> spec_event P (JObj kvs) = Some ev"
  by (auto simp: convert_touch_event_to_hid_def spec_event_def all_keys_obj direction_map_def
      split: sum.splits option.splits json.splits if_splits)

lemma convert_not_obj:
  assumes "\<And>kvs. v \<noteq> JObj kvs"
  shows "\<exists>e. convert_touch_event_to_hid P v = Inl e"
  using assms
  by (cases v) (auto simp: convert_touch_event_to_hid_def split: sum.splits if_splits)

lemma convert_refines_spec:
  "convert_touch_event_to_hid P v = Inr ev \<longleftrightarrow> spec_event P v = Some ev"
proof (cases "\<exists>kvs. v = JObj kvs")
  case True
  then show ?thesis using convert_obj by auto
next
  case False
  then have "\<exists>e. convert_touch_event_to_hid P v = Inl e" using convert_not_obj by blast
  moreover have "spec_event P v = None" using False by (cases v) (auto simp: spec_event_def)
  ultimately show ?thesis by auto
qed

lemma convert_fails:
  assumes "spec_event P v = None"
  shows "\<exists>e. convert_touch_event_to_hid P v = Inl e"
proof (cases "convert_touch_event_to_hid P v")
  case (Inl e)
  then show ?thesis by blast
next
  case (Inr ev)
  then have "spec_event P v = Some ev" by (simp add: convert_refines_spec)
  with assms show ?thesis by simp
qed

lemma strip_Nil: "strip [] = []"
  by (simp add: strip_def)

lemma iteration_event:
  assumes "strip line \<noteq> []" and "json_loads P (strip line) = Inr v" and "spec_event P v = Some ev"
  shows "iteration P (Text line) = ([Yield ev], Continue)"
proof -
  have "line \<noteq> []" using assms(1) strip_Nil by auto
  moreover have "convert_touch_event_to_hid P v = Inr ev"
    using assms(3) by (simp add: convert_refines_spec)
  ultimately show ?thesis
    using assms(1,2) by (simp add: iteration_def process_line_def Let_def)
qed

lemma iteration_convert_fault:
  assumes "strip line \<noteq> []" and "json_loads P (strip line) = Inr v" and "spec_event P v = None"
  shows "\<exists>e. iteration P (Text line) = ([Log WARNING ''Failed to convert event: '' (Some e)], Continue)"
proof -
  have "line \<noteq> []" using assms(1) strip_Nil by auto
  moreover obtain e where "convert_touch_event_to_hid P v = Inl e"
    using convert_fails [OF assms(3)] by blast
  ultimately show ?thesis
    using assms(1,2) by (simp add: iteration_def process_line_def Let_def)
qed

lemma iteration_decode_fault:
  assumes "strip line \<noteq> []" and "json_loads P (strip line) = Inl e" and "class_of e = JSONDecodeError"
  shows "iteration P (Text line) = ([Log WARNING ''Invalid JSON: '' (Some e)], Continue)"
proof -
  have "line \<noteq> []" using assms(1) strip_Nil by auto
  then show ?thesis
    using assms by (simp add: iteration_def process_line_def Let_def)
qed

lemma stream_loop_append:
  "stream_loop P (pre @ post) =
     (if snd (stream_loop P pre) = Closed then stream_loop P pre
      else (fst (stream_loop P pre) @ fst (stream_loop P post), snd (stream_loop P post)))"
  by (induction pre) (auto split: prod.splits control.splits)

lemma caught_fault_no_event:
  assumes "lacks_required_field v \<or> unrecognized_type v"
  shows "spec_event P v = None"
  using assms
  by (auto simp: lacks_required_field_def unrecognized_type_def spec_event_def touch_types_def
      split: json.splits option.splits sum.splits)

lemma caught_fault_iteration:
  assumes "caught_fault_line P bad"
  shows "\<exists>m e. (m = ''Invalid JSON: '' \<or> m = ''Failed to convert event: '')
           \<and> iteration P (Text bad) = ([Log WARNING m (Some e)], Continue)"
proof (cases "json_loads P (strip bad)")
  case (Inl e)
  then have "iteration P (Text bad) = ([Log WARNING ''Invalid JSON: '' (Some e)], Continue)"
    using assms iteration_decode_fault [of bad P e] by (simp add: caught_fault_line_def)
  then show ?thesis by blast
next
  case (Inr v)
  then have "spec_event P v = None"
    using assms caught_fault_no_event [of v P] by (simp add: caught_fault_line_def)
  then obtain e where
    "iteration P (Text bad) = ([Log WARNING ''Failed to convert event: '' (Some e)], Continue)"
    using assms Inr iteration_convert_fault [of bad P v] by (auto simp: caught_fault_line_def)
  then show ?thesis by blast
qed

lemma touch_object_event:
  assumes "is_touch_object v"
    and "map_of kvs ''x'' = Some xv" and "map_of kvs ''y'' = Some yv" and "v = JObj kvs"
    and "py_float P xv = Inr fx" and "py_float P yv = Inr fy"
  shows "\<exists>d. spec_event P v = Some (HIDPress (HIDTouch \<lparr>point_x = fx, point_y = fy\<rparr>) d)"
proof -
  obtain t where t: "map_of kvs ''type'' = Some (JStr t)" "t \<in> set touch_types"
    using assms(1,4) by (auto simp: is_touch_object_def split: option.splits json.splits)
  show ?thesis
    using t assms(2-6) by (auto simp: spec_event_def touch_types_def)
qed

lemma touch_line_event:
  assumes "touch_line P l" and "coercible_line P l"
  shows "\<exists>ev. line_event P l = Some ev \<and> iteration P (Text l) = ([Yield ev], Continue)"
proof -
  obtain v where v: "json_loads P (strip l) = Inr v" "is_touch_object v" "strip l \<noteq> []"
    using assms(1) by (auto simp: touch_line_def split: sum.splits)
  obtain kvs xv yv where k: "v = JObj kvs" "map_of kvs ''x'' = Some xv" "map_of kvs ''y'' = Some yv"
      "coercible P xv" "coercible P yv"
    using assms(2) v(1) by (auto simp: coercible_line_def split: json.splits option.splits)
  obtain fx fy where f: "py_float P xv = Inr fx" "py_float P yv = Inr fy"
    using k(4,5) by (auto simp: coercible_def split: sum.splits)
  obtain ev where ev: "spec_event P v = Some ev"
    using touch_object_event [OF v(2) k(2) k(3) k(1) f] by blast
  show ?thesis
    using iteration_event [OF v(3) v(1) ev] v(1) ev by (auto simp: line_event_def)
qed

lemma stream_loop_touch_lines:
  assumes "\<forall>l\<in>set ls. touch_line P l \<and> coercible_line P l"
  shows "\<exists>evs. map Some evs = map (line_event P) ls
            \<and> stream_loop P (map Text ls) = (map Yield evs, Reading)"
  using assms
proof (induction ls)
  case Nil
  then show ?case by simp
next
  case (Cons l ls)
  then obtain evs where evs: "map Some evs = map (line_event P) ls"
      "stream_loop P (map Text ls) = (map Yield evs, Reading)"
    by auto
  obtain ev where ev: "line_event P l = Some ev" "iteration P (Text l) = ([Yield ev], Continue)"
    using Cons.prems touch_line_event [of P l] by auto
  have "map Some (ev # evs) = map (line_event P) (l # ls)"
    using evs(1) ev(1) by simp
  moreover have "stream_loop P (map Text (l # ls)) = (map Yield (ev # evs), Reading)"
    using evs(2) ev(2) by simp
  ultimately show ?case by blast
qed

lemma yields_press:
  assumes "iteration P r = (outs, c)" and "ev \<in> set (events_of outs)"
  shows "\<exists>p d. ev = HIDPress (HIDTouch p) d"
proof -
  have spec: "\<And>v. spec_event P v = Some ev \<Longrightarrow> \<exists>p d. ev = HIDPress (HIDTouch p) d"
    by (auto simp: spec_event_def split: json.splits option.splits sum.splits if_splits)
  show ?thesis
    using assms spec
    by (auto simp: iteration_def process_line_def Let_def convert_refines_spec
        split: read.splits sum.splits if_splits)
qed

lemma stream_loop_press:
  "ev \<in> set (events_of (fst (stream_loop P rs))) \<Longrightarrow> \<exists>p d. ev = HIDPress (HIDTouch p) d"
proof (induction rs)
  case Nil
  then show ?case by simp
next
  case (Cons r rs)
  obtain outs c where it: "iteration P r = (outs, c)" by (cases "iteration P r")
  show ?case
  proof (cases c)
    case Continue
    then have "ev \<in> set (events_of outs) \<or> ev \<in> set (events_of (fst (stream_loop P rs)))"
      using Cons.prems it by (simp add: events_of_append)
    then show ?thesis using yields_press [OF it] Cons.IH by blast
  next
    case Break
    then have "ev \<in> set (events_of outs)" using Cons.prems it by simp
    then show ?thesis using yields_press [OF it] by blast
  qed
qed

lemma run_append_reading:
  assumes "snd (read_touch_events_from_stdin P pre) = Reading"
  shows "read_touch_events_from_stdin P (pre @ post) =
           (fst (read_touch_events_from_stdin P pre) @ fst (stream_loop P post),
            snd (stream_loop P post))"
  using assms by (simp add: read_touch_events_from_stdin_def stream_loop_append)

lemma run_skip:
  assumes "iteration P r = (outs, Continue)"
  shows "events_of (fst (read_touch_events_from_stdin P (pre @ r # post))) =
           events_of (fst (read_touch_events_from_stdin P pre)) @
           (if snd (read_touch_events_from_stdin P pre) = Closed then []
            else events_of outs @ events_of (fst (stream_loop P post)))"
    and "snd (read_touch_events_from_stdin P (pre @ r # post)) =
           (if snd (read_touch_events_from_stdin P pre) = Closed then Closed
            else snd (stream_loop P post))"
  using assms
  by (simp_all add: read_touch_events_from_stdin_def stream_loop_append events_of_append)

lemma sample_line_event:
  "line_event sample_python (text_start @ newline) =
     Some (HIDPress (HIDTouch \<lparr>point_x = 1, point_y = 2\<rparr>) DOWN)"
  "line_event sample_python (text_move @ newline) =
     Some (HIDPress (HIDTouch \<lparr>point_x = 3, point_y = 4\<rparr>) DOWN)"
  "line_event sample_python (text_end @ newline) =
     Some (HIDPress (HIDTouch \<lparr>point_x = 5, point_y = 6\<rparr>) UP)"
  by code_simp+

lemma sample_touch_lines:
  "touch_line sample_python (text_start @ newline)"
  "touch_line sample_python (text_move @ newline)"
  "touch_line sample_python (text_end @ newline)"
  "coercible_line sample_python (text_start @ newline)"
  "coercible_line sample_python (text_move @ newline)"
  "coercible_line sample_python (text_end @ newline)"
  by code_simp+


section \<open>Properties of the touch bridge\<close>

text \<open>
  Claim C1 (as amended). For every feed in which each line is a JSON object with
  \<^verbatim>\<open>type\<close> one of \<^verbatim>\<open>touch_start\<close>, \<^verbatim>\<open>touch_move\<close>, \<^verbatim>\<open>touch_end\<close> and with fields
  \<^verbatim>\<open>x\<close> and \<^verbatim>\<open>y\<close> whose values \<^verbatim>\<open>float\<close> accepts, the bridge yields exactly one event
  per line, in the order of the lines, each the event the spec's mapping gives for its line
  (\<open>DOWN\<close> for a start or a move, \<open>UP\<close> for an end, at the coerced point); it logs
  nothing but its start message and is still reading.
\<close>

theorem bridge_one_event_per_line:
  assumes "\<forall>l\<in>set ls. touch_line P l \<and> coercible_line P l"
  shows "\<exists>evs. map Some evs = map (line_event P) ls \<and>
           read_touch_events_from_stdin P (map Text ls) =
             (Log INFO ''Starting touch event stream from stdin...'' None # map Yield evs, Reading)"
  using stream_loop_touch_lines [OF assms]
  by (auto simp: read_touch_events_from_stdin_def)

text \<open>
  The feed of the spec's example: three lines, three events in the same order.
\<close>

theorem bridge_one_event_per_line_witness:
  "touch_line sample_python (text_start @ newline) \<and> coercible_line sample_python (text_start @ newline)
   \<and> touch_line sample_python (text_move @ newline) \<and> coercible_line sample_python (text_move @ newline)
   \<and> touch_line sample_python (text_end @ newline) \<and> coercible_line sample_python (text_end @ newline)
   \<and> read_touch_events_from_stdin sample_python
        [Text (text_start @ newline), Text (text_move @ newline), Text (text_end @ newline)] =
       ([Log INFO ''Starting touch event stream from stdin...'' None,
         Yield (HIDPress (HIDTouch \<lparr>point_x = 1, point_y = 2\<rparr>) DOWN),
         Yield (HIDPress (HIDTouch \<lparr>point_x = 3, point_y = 4\<rparr>) DOWN),
         Yield (HIDPress (HIDTouch \<lparr>point_x = 5, point_y = 6\<rparr>) UP)], Reading)"
proof -
  let ?ls = "[text_start @ newline, text_move @ newline, text_end @ newline]"
  have h: "\<forall>l\<in>set ?ls. touch_line sample_python l \<and> coercible_line sample_python l"
    by (simp add: sample_touch_lines)
  obtain evs where evs: "map Some evs = map (line_event sample_python) ?ls"
    "read_touch_events_from_stdin sample_python (map Text ?ls) =
       (Log INFO ''Starting touch event stream from stdin...'' None # map Yield evs, Reading)"
    using bridge_one_event_per_line [OF h] by blast
  have "evs = [HIDPress (HIDTouch \<lparr>point_x = 1, point_y = 2\<rparr>) DOWN,
               HIDPress (HIDTouch \<lparr>point_x = 3, point_y = 4\<rparr>) DOWN,
               HIDPress (HIDTouch \<lparr>point_x = 5, point_y = 6\<rparr>) UP]"
    using evs(1) by (auto simp: sample_line_event)
  then show ?thesis using evs(2) by (simp add: sample_touch_lines)
qed

text \<open>
  The claim as first stated asks only for fields \<^verbatim>\<open>x\<close> and \<^verbatim>\<open>y\<close>, whatever their
  values. The line \<^verbatim>\<open>{"type":"touch_start","x":null,"y":2}\<close> is such an object, and the
  bridge yields no event for it: \<^verbatim>\<open>float(None)\<close> raises, and the handler around the
  conversion logs a warning and goes on.
\<close>

theorem bridge_one_event_per_line_counterexample:
  "touch_line sample_python (text_null @ newline)
   \<and> read_touch_events_from_stdin sample_python [Text (text_null @ newline)] =
       ([Log INFO ''Starting touch event stream from stdin...'' None,
         Log WARNING ''Failed to convert event: '' (Some (Exn TypeError Unspecified))], Reading)
   \<and> events_of (fst (read_touch_events_from_stdin sample_python [Text (text_null @ newline)])) = []"
  by code_simp

text \<open>
  The faults the inner handlers catch are isolated: such a line yields no event, is
  logged as one warning (of the decoder or of the conversion), and the loop continues;
  in any feed, the events yielded and the state reached are those of the same feed
  without the line.
\<close>

lemma caught_fault_isolated:
  assumes "caught_fault_line P bad"
  shows "(\<exists>m e. (m = ''Invalid JSON: '' \<or> m = ''Failed to convert event: '')
            \<and> iteration P (Text bad) = ([Log WARNING m (Some e)], Continue))
       \<and> events_of (fst (read_touch_events_from_stdin P (pre @ Text bad # post))) =
           events_of (fst (read_touch_events_from_stdin P (pre @ post)))
       \<and> snd (read_touch_events_from_stdin P (pre @ Text bad # post)) =
           snd (read_touch_events_from_stdin P (pre @ post))"
proof -
  obtain m e where m: "m = ''Invalid JSON: '' \<or> m = ''Failed to convert event: ''"
    and it: "iteration P (Text bad) = ([Log WARNING m (Some e)], Continue)"
    using caught_fault_iteration [OF assms] by blast
  have "events_of (fst (read_touch_events_from_stdin P (pre @ Text bad # post))) =
          events_of (fst (read_touch_events_from_stdin P (pre @ post)))"
    and "snd (read_touch_events_from_stdin P (pre @ Text bad # post)) =
          snd (read_touch_events_from_stdin P (pre @ post))"
    using it
    by (simp_all add: read_touch_events_from_stdin_def stream_loop_append events_of_append)
  then show ?thesis using m it by blast
qed

text \<open>
  One line that is not JSON between two valid lines: exactly two events, and the bridge
  is still reading.
\<close>

lemma caught_fault_isolated_sample:
  "caught_fault_line sample_python (''not json'' @ newline)
   \<and> events_of (fst (read_touch_events_from_stdin sample_python
        [Text (text_start @ newline), Text (''not json'' @ newline), Text (text_end @ newline)])) =
       [HIDPress (HIDTouch \<lparr>point_x = 1, point_y = 2\<rparr>) DOWN,
        HIDPress (HIDTouch \<lparr>point_x = 5, point_y = 6\<rparr>) UP]
   \<and> snd (read_touch_events_from_stdin sample_python
        [Text (text_start @ newline), Text (''not json'' @ newline), Text (text_end @ newline)]) = Reading"
proof -
  have h: "caught_fault_line sample_python (''not json'' @ newline)" by code_simp
  have two: "events_of (fst (read_touch_events_from_stdin sample_python
        ([Text (text_start @ newline)] @ [Text (text_end @ newline)]))) =
       [HIDPress (HIDTouch \<lparr>point_x = 1, point_y = 2\<rparr>) DOWN,
        HIDPress (HIDTouch \<lparr>point_x = 5, point_y = 6\<rparr>) UP]"
     "snd (read_touch_events_from_stdin sample_python
        ([Text (text_start @ newline)] @ [Text (text_end @ newline)])) = Reading"
    by code_simp+
  show ?thesis
    using h two caught_fault_isolated [OF h, of "[Text (text_start @ newline)]" "[Text (text_end @ newline)]"]
    by simp
qed

lemma iteration_other_decoder_fault:
  assumes "strip line \<noteq> []" and "json_loads P (strip line) = Inl e"
    and "class_of e \<noteq> JSONDecodeError"
  shows "iteration P (Text line) = ([Log ERROR ''Error reading stdin: '' (Some e)], Break)"
proof -
  have "line \<noteq> []" using assms(1) strip_Nil by auto
  then show ?thesis
    using assms by (simp add: iteration_def process_line_def Let_def)
qed

lemma other_decoder_fault_closes:
  assumes "snd (read_touch_events_from_stdin P pre) = Reading"
    and "strip line \<noteq> []" and "json_loads P (strip line) = Inl e"
    and "class_of e \<noteq> JSONDecodeError"
  shows "read_touch_events_from_stdin P (pre @ Text line # rest) =
           (fst (read_touch_events_from_stdin P pre) @ [Log ERROR ''Error reading stdin: '' (Some e)],
            Closed)"
  using run_append_reading [OF assms(1), of "Text line # rest"]
    iteration_other_decoder_fault [OF assms(2-4)]
  by simp

lemma strip_line:
  assumes "xs \<noteq> []" and "\<forall>c\<in>set xs. \<not> isspace c"
  shows "strip (xs @ newline) = xs"
proof -
  obtain c cs where xs: "xs = c # cs" using assms(1) by (cases xs) auto
  then have "\<not> isspace c" using assms(2) by simp
  then have front: "dropWhile isspace (xs @ newline) = xs @ newline" using xs by simp
  have nl: "isspace (CHR 0x0A)" by (simp add: isspace_def)
  obtain z zs where r: "rev xs = z # zs" using assms(1) by (cases "rev xs") auto
  then have "z \<in> set xs" by (metis list.set_intros(1) set_rev)
  then have "\<not> isspace z" using assms(2) by simp
  then have "dropWhile isspace (rev (xs @ newline)) = rev xs"
    using r nl by (simp add: newline_def)
  then show ?thesis by (simp add: strip_def front)
qed

lemma long_number_line:
  "strip (long_number @ newline) = long_number"
  by (rule strip_line) (simp_all add: long_number_def isspace_def)

lemma long_number_rejected:
  "json_loads limited_python long_number = Inl (Exn ValueError Unspecified)"
  by (simp add: limited_python_def long_number_def list_all_iff isdigit_def)

lemma long_number_not_empty: "long_number \<noteq> []"
  by (simp add: long_number_def)

lemma limited_start:
  "iteration limited_python (Text (text_start @ newline)) =
     ([Yield (HIDPress (HIDTouch \<lparr>point_x = 1, point_y = 2\<rparr>) DOWN)], Continue)"
  by code_simp

text \<open>
  Claim C2 (the code does not keep it). A faulty line is to yield no event, be logged,
  and leave the stream running. The handler around the conversion takes every exception,
  but the handler of the decoder takes \<^verbatim>\<open>JSONDecodeError\<close> only: an exception of another
  class raised by \<^verbatim>\<open>json.loads\<close> goes to the outer handler, which reports it as an error
  of reading and breaks. On the feed of a valid line, a line that is a number of 5000
  digits (valid JSON, without the required fields), and another valid line, the bridge
  yields the first event, logs the error and is closed: the third line is never read and
  its event is lost.
\<close>

theorem decoder_fault_closes_stream:
  "json_loads limited_python (strip (long_number @ newline)) = Inl (Exn ValueError Unspecified)
   \<and> read_touch_events_from_stdin limited_python
       [Text (text_start @ newline), Text (long_number @ newline), Text (text_end @ newline)] =
      ([Log INFO ''Starting touch event stream from stdin...'' None,
        Yield (HIDPress (HIDTouch \<lparr>point_x = 1, point_y = 2\<rparr>) DOWN),
        Log ERROR ''Error reading stdin: '' (Some (Exn ValueError Unspecified))], Closed)"
proof -
  have a: "json_loads limited_python (strip (long_number @ newline)) = Inl (Exn ValueError Unspecified)"
    by (simp add: long_number_line long_number_rejected)
  have "strip (long_number @ newline) \<noteq> []"
    by (simp add: long_number_line long_number_not_empty)
  then have "iteration limited_python (Text (long_number @ newline)) =
      ([Log ERROR ''Error reading stdin: '' (Some (Exn ValueError Unspecified))], Break)"
    using a by (simp add: iteration_other_decoder_fault)
  then show ?thesis
    using a by (simp add: read_touch_events_from_stdin_def limited_start)
qed

text \<open>
  Claim C3. Every event the bridge yields, on any feed, is a press; none is a delay.
\<close>

theorem bridge_emits_only_presses:
  "list_all is_press (events_of (fst (read_touch_events_from_stdin P rs)))
   \<and> (\<forall>ev\<in>set (events_of (fst (read_touch_events_from_stdin P rs))). \<forall>s. ev \<noteq> HIDDelay s)"
proof -
  have "\<And>ev. ev \<in> set (events_of (fst (read_touch_events_from_stdin P rs)))
          \<Longrightarrow> \<exists>p d. ev = HIDPress (HIDTouch p) d"
    using stream_loop_press [of _ P rs] by (simp add: read_touch_events_from_stdin_def)
  then show ?thesis by (fastforce simp: list_all_iff is_press_def)
qed

theorem bridge_emits_only_presses_witness:
  "list_all is_press (events_of (fst (read_touch_events_from_stdin sample_python
      [Text (text_start @ newline), Text text_blank, Text (''not json'' @ newline),
       Text (text_pinch @ newline), Text (text_end @ newline), Text []])))
   \<and> events_of (fst (read_touch_events_from_stdin sample_python
      [Text (text_start @ newline), Text text_blank, Text (''not json'' @ newline),
       Text (text_pinch @ newline), Text (text_end @ newline), Text []])) =
       [HIDPress (HIDTouch \<lparr>point_x = 1, point_y = 2\<rparr>) DOWN,
        HIDPress (HIDTouch \<lparr>point_x = 5, point_y = 6\<rparr>) UP]"
proof -
  have "events_of (fst (read_touch_events_from_stdin sample_python
      [Text (text_start @ newline), Text text_blank, Text (''not json'' @ newline),
       Text (text_pinch @ newline), Text (text_end @ newline), Text []])) =
       [HIDPress (HIDTouch \<lparr>point_x = 1, point_y = 2\<rparr>) DOWN,
        HIDPress (HIDTouch \<lparr>point_x = 5, point_y = 6\<rparr>) UP]"
    by code_simp
  then show ?thesis
    using bridge_emits_only_presses [of sample_python
      "[Text (text_start @ newline), Text text_blank, Text (''not json'' @ newline),
        Text (text_pinch @ newline), Text (text_end @ newline), Text []]"]
    by simp
qed

text \<open>
  Claim C4. When the feed reaches its end while the bridge is reading (\<^verbatim>\<open>readline\<close>
  returns the empty text), the bridge logs the end of input at the informational level,
  yields nothing more, reads nothing more (whatever the feed would deliver next is
  ignored) and is closed: the generator returns, it does not raise.
\<close>

theorem end_of_input_closes:
  assumes "snd (read_touch_events_from_stdin P pre) = Reading"
  shows "read_touch_events_from_stdin P (pre @ Text [] # rest) =
           (fst (read_touch_events_from_stdin P pre) @ [Log INFO ''Received EOF, ending stream'' None],
            Closed)"
proof -
  have "iteration P (Text []) = ([Log INFO ''Received EOF, ending stream'' None], Break)"
    by (simp add: iteration_def process_line_def)
  then show ?thesis
    using run_append_reading [OF assms, of "Text [] # rest"] by simp
qed

theorem end_of_input_closes_witness:
  "snd (read_touch_events_from_stdin sample_python [Text (text_start @ newline)]) = Reading
   \<and> read_touch_events_from_stdin sample_python
        ([Text (text_start @ newline)] @ Text [] # [Text (text_end @ newline)]) =
       ([Log INFO ''Starting touch event stream from stdin...'' None,
         Yield (HIDPress (HIDTouch \<lparr>point_x = 1, point_y = 2\<rparr>) DOWN),
         Log INFO ''Received EOF, ending stream'' None], Closed)"
proof -
  have h: "snd (read_touch_events_from_stdin sample_python [Text (text_start @ newline)]) = Reading"
    by code_simp
  have pre: "fst (read_touch_events_from_stdin sample_python [Text (text_start @ newline)]) =
       [Log INFO ''Starting touch event stream from stdin...'' None,
        Yield (HIDPress (HIDTouch \<lparr>point_x = 1, point_y = 2\<rparr>) DOWN)]"
    by code_simp
  show ?thesis
    using h end_of_input_closes [OF h, of "[Text (text_end @ newline)]"] pre by simp
qed

text \<open>
  Claim C5. When a read of the feed raises while the bridge is reading, the bridge logs
  the fault once at the error level, yields nothing more, does not read again (whatever
  the feed would deliver next is ignored) and is closed: the generator returns, and the
  events yielded before the fault are unchanged.
\<close>

theorem read_fault_closes:
  assumes "snd (read_touch_events_from_stdin P pre) = Reading"
  shows "read_touch_events_from_stdin P (pre @ ReadFault e # rest) =
           (fst (read_touch_events_from_stdin P pre) @ [Log ERROR ''Error reading stdin: '' (Some e)],
            Closed)"
proof -
  have "iteration P (ReadFault e) = ([Log ERROR ''Error reading stdin: '' (Some e)], Break)"
    by (simp add: iteration_def)
  then show ?thesis
    using run_append_reading [OF assms, of "ReadFault e # rest"] by simp
qed

theorem read_fault_closes_witness:
  "snd (read_touch_events_from_stdin sample_python [Text (text_start @ newline)]) = Reading
   \<and> read_touch_events_from_stdin sample_python
        ([Text (text_start @ newline)] @ ReadFault (Exn OtherException (Msg ''Input/output error''))
           # [Text (text_end @ newline)]) =
       ([Log INFO ''Starting touch event stream from stdin...'' None,
         Yield (HIDPress (HIDTouch \<lparr>point_x = 1, point_y = 2\<rparr>) DOWN),
         Log ERROR ''Error reading stdin: '' (Some (Exn OtherException (Msg ''Input/output error'')))],
        Closed)"
proof -
  have h: "snd (read_touch_events_from_stdin sample_python [Text (text_start @ newline)]) = Reading"
    by code_simp
  have pre: "fst (read_touch_events_from_stdin sample_python [Text (text_start @ newline)]) =
       [Log INFO ''Starting touch event stream from stdin...'' None,
        Yield (HIDPress (HIDTouch \<lparr>point_x = 1, point_y = 2\<rparr>) DOWN)]"
    by code_simp
  show ?thesis
    using h read_fault_closes [OF h, of "Exn OtherException (Msg ''Input/output error'')"
        "[Text (text_end @ newline)]"] pre
    by simp
qed

text \<open>
  Claim C9. A line that is empty after stripping yields no event and no log record, and
  the loop continues: a feed with such a line produces exactly what the feed without it
  produces.
\<close>

theorem blank_line_skipped:
  assumes "line \<noteq> []" and "strip line = []"
  shows "iteration P (Text line) = ([], Continue)
       \<and> read_touch_events_from_stdin P (pre @ Text line # post) =
           read_touch_events_from_stdin P (pre @ post)"
proof -
  have it: "iteration P (Text line) = ([], Continue)"
    using assms by (simp add: iteration_def process_line_def)
  then show ?thesis
    by (simp add: read_touch_events_from_stdin_def stream_loop_append)
qed

theorem blank_line_skipped_witness:
  "text_blank \<noteq> [] \<and> strip text_blank = []
   \<and> iteration sample_python (Text text_blank) = ([], Continue)
   \<and> read_touch_events_from_stdin sample_python
        ([Text (text_start @ newline)] @ Text text_blank # [Text (text_end @ newline)]) =
       ([Log INFO ''Starting touch event stream from stdin...'' None,
         Yield (HIDPress (HIDTouch \<lparr>point_x = 1, point_y = 2\<rparr>) DOWN),
         Yield (HIDPress (HIDTouch \<lparr>point_x = 5, point_y = 6\<rparr>) UP)], Reading)"
proof -
  have h1: "text_blank \<noteq> []" by code_simp
  have h2: "strip text_blank = []" by code_simp
  have two: "read_touch_events_from_stdin sample_python
        ([Text (text_start @ newline)] @ [Text (text_end @ newline)]) =
       ([Log INFO ''Starting touch event stream from stdin...'' None,
         Yield (HIDPress (HIDTouch \<lparr>point_x = 1, point_y = 2\<rparr>) DOWN),
         Yield (HIDPress (HIDTouch \<lparr>point_x = 5, point_y = 6\<rparr>) UP)], Reading)"
    by code_simp
  show ?thesis
    using h1 h2 two
      blank_line_skipped [OF h1 h2, of sample_python "[Text (text_start @ newline)]"
        "[Text (text_end @ newline)]"]
    by simp
qed

text \<open>
  Claim C10. For a line that is a JSON object with a known \<^verbatim>\<open>type\<close> and fields
  \<^verbatim>\<open>x\<close> and \<^verbatim>\<open>y\<close> of any value: when \<^verbatim>\<open>float\<close> accepts both values the bridge
  yields the press at the coerced point; when it rejects one, the line yields no event,
  is logged as a warning, and the loop continues. The coercion is \<open>py_float\<close>, which
  takes strings and booleans as well as numbers.
\<close>

theorem coercion_decides_event:
  assumes "strip line \<noteq> []" and "json_loads P (strip line) = Inr (JObj kvs)"
    and "map_of kvs ''type'' = Some (JStr t)" and "t \<in> set touch_types"
    and "map_of kvs ''x'' = Some xv" and "map_of kvs ''y'' = Some yv"
  shows "(\<forall>fx fy. py_float P xv = Inr fx \<and> py_float P yv = Inr fy \<longrightarrow>
            iteration P (Text line) =
              ([Yield (HIDPress (HIDTouch \<lparr>point_x = fx, point_y = fy\<rparr>)
                         (if t = ''touch_end'' then UP else DOWN))], Continue))
       \<and> ((\<exists>e. py_float P xv = Inl e) \<or> (\<exists>e. py_float P yv = Inl e) \<longrightarrow>
            (\<exists>e. iteration P (Text line) =
                  ([Log WARNING ''Failed to convert event: '' (Some e)], Continue)))"
proof (intro conjI allI impI)
  fix fx fy
  assume "py_float P xv = Inr fx \<and> py_float P yv = Inr fy"
  then have "spec_event P (JObj kvs) =
      Some (HIDPress (HIDTouch \<lparr>point_x = fx, point_y = fy\<rparr>) (if t = ''touch_end'' then UP else DOWN))"
    using assms(3-6) by (auto simp: spec_event_def touch_types_def)
  then show "iteration P (Text line) =
      ([Yield (HIDPress (HIDTouch \<lparr>point_x = fx, point_y = fy\<rparr>)
                 (if t = ''touch_end'' then UP else DOWN))], Continue)"
    using iteration_event [OF assms(1,2)] by simp
next
  assume "(\<exists>e. py_float P xv = Inl e) \<or> (\<exists>e. py_float P yv = Inl e)"
  then have "spec_event P (JObj kvs) = None"
    using assms(3-6) by (auto simp: spec_event_def split: sum.splits)
  then show "\<exists>e. iteration P (Text line) =
      ([Log WARNING ''Failed to convert event: '' (Some e)], Continue)"
    using iteration_convert_fault [OF assms(1,2)] by simp
qed

text \<open>
  The line \<^verbatim>\<open>{"type":"touch_end","x":"7","y":true}\<close> yields the release at \<open>(7, 1)\<close>;
  the line \<^verbatim>\<open>{"type":"touch_move","x":"abc","y":0}\<close> is skipped with a warning.
\<close>

theorem coercion_decides_event_witness:
  "strip (text_coerced @ newline) \<noteq> []
   \<and> json_loads sample_python (strip (text_coerced @ newline)) =
       Inr (JObj [(''type'', JStr ''touch_end''), (''x'', JStr ''7''), (''y'', JBool True)])
   \<and> ''touch_end'' \<in> set touch_types
   \<and> py_float sample_python (JStr ''7'') = Inr 7
   \<and> py_float sample_python (JBool True) = Inr 1
   \<and> iteration sample_python (Text (text_coerced @ newline)) =
       ([Yield (HIDPress (HIDTouch \<lparr>point_x = 7, point_y = 1\<rparr>) UP)], Continue)
   \<and> strip (text_word @ newline) \<noteq> []
   \<and> json_loads sample_python (strip (text_word @ newline)) =
       Inr (JObj [(''type'', JStr ''touch_move''), (''x'', JStr ''abc''), (''y'', JInt 0)])
   \<and> py_float sample_python (JStr ''abc'') = Inl (Exn ValueError Unspecified)
   \<and> (\<exists>e. iteration sample_python (Text (text_word @ newline)) =
         ([Log WARNING ''Failed to convert event: '' (Some e)], Continue))"
proof -
  let ?kvs = "[(''type'', JStr ''touch_end''), (''x'', JStr ''7''), (''y'', JBool True)]"
  let ?kvs' = "[(''type'', JStr ''touch_move''), (''x'', JStr ''abc''), (''y'', JInt 0)]"
  have a1: "strip (text_coerced @ newline) \<noteq> []" by code_simp
  have a2: "json_loads sample_python (strip (text_coerced @ newline)) = Inr (JObj ?kvs)"
    by code_simp
  have a3: "map_of ?kvs ''type'' = Some (JStr ''touch_end'')" by simp
  have a4: "''touch_end'' \<in> set touch_types" by (simp add: touch_types_def)
  have a5: "map_of ?kvs ''x'' = Some (JStr ''7'')" by simp
  have a6: "map_of ?kvs ''y'' = Some (JBool True)" by simp
  have f1: "py_float sample_python (JStr ''7'') = Inr 7" by code_simp
  have f2: "py_float sample_python (JBool True) = Inr 1" by code_simp
  have b1: "strip (text_word @ newline) \<noteq> []" by code_simp
  have b2: "json_loads sample_python (strip (text_word @ newline)) = Inr (JObj ?kvs')"
    by code_simp
  have b3: "map_of ?kvs' ''type'' = Some (JStr ''touch_move'')" by simp
  have b4: "''touch_move'' \<in> set touch_types" by (simp add: touch_types_def)
  have b5: "map_of ?kvs' ''x'' = Some (JStr ''abc'')" by simp
  have b6: "map_of ?kvs' ''y'' = Some (JInt 0)" by simp
  have g1: "py_float sample_python (JStr ''abc'') = Inl (Exn ValueError Unspecified)" by code_simp
  show ?thesis
    using coercion_decides_event [OF a1 a2 a3 a4 a5 a6] coercion_decides_event [OF b1 b2 b3 b4 b5 b6]
      a1 a2 a4 f1 f2 b1 b2 g1
    by simp
qed


section \<open>Properties of the key commands\<close>

lemma int_list_all:
  "list_all2 (\<lambda>s k. int_of_str P s = Inr k) ss ks \<Longrightarrow> int_list P ss = Inr ks"
  by (induction ss ks rule: list_all2_induct) simp_all

lemma int_list_fails:
  "s \<in> set ss \<Longrightarrow> int_of_str P s = Inl e \<Longrightarrow> \<exists>e'. int_list P ss = Inl e'"
  by (induction ss) (auto split: sum.splits)

text \<open>
  Claim C7 (as amended). The key code values passed to the client are exactly the integers
  the commands are given: \<^verbatim>\<open>key\<close> passes \<^verbatim>\<open>args.key\<close>, whatever its sign or size, and
  \<^verbatim>\<open>key-sequence\<close> passes the integers \<^verbatim>\<open>int\<close> reads from its strings, whatever their
  sign or size; no value is rejected for being negative. The only rejection is a string
  of the sequence that \<^verbatim>\<open>int\<close> does not accept, which raises before the client is called.
\<close>

theorem key_codes_passed_unchecked:
  "KeyCommand_run_with_client args = [Client_key (key args) (duration args)]
   \<and> (\<forall>ks. list_all2 (\<lambda>s k. int_of_str P s = Inr k) (key_sequence sargs) ks \<longrightarrow>
         KeySequenceCommand_run_with_client P sargs = Inr [Client_key_sequence ks])
   \<and> ((\<exists>s\<in>set (key_sequence sargs). \<exists>e. int_of_str P s = Inl e) \<longrightarrow>
         (\<exists>e. KeySequenceCommand_run_with_client P sargs = Inl e))"
proof (intro conjI allI impI)
  show "KeyCommand_run_with_client args = [Client_key (key args) (duration args)]"
    by (simp add: KeyCommand_run_with_client_def)
next
  fix ks
  assume "list_all2 (\<lambda>s k. int_of_str P s = Inr k) (key_sequence sargs) ks"
  then show "KeySequenceCommand_run_with_client P sargs = Inr [Client_key_sequence ks]"
    by (simp add: KeySequenceCommand_run_with_client_def int_list_all)
next
  assume "\<exists>s\<in>set (key_sequence sargs). \<exists>e. int_of_str P s = Inl e"
  then obtain e where "int_list P (key_sequence sargs) = Inl e"
    using int_list_fails by blast
  then show "\<exists>e. KeySequenceCommand_run_with_client P sargs = Inl e"
    by (simp add: KeySequenceCommand_run_with_client_def)
qed

theorem key_codes_passed_unchecked_witness:
  "KeyCommand_run_with_client \<lparr>key = 4, duration = Some (1 / 2 :: real)\<rparr> = [Client_key 4 (Some (1 / 2))]
   \<and> int_of_str sample_python ''4'' = Inr 4
   \<and> int_of_str sample_python ''-5'' = Inr (- 5)
   \<and> KeySequenceCommand_run_with_client sample_python \<lparr>key_sequence = [''4'', ''-5'']\<rparr> =
       Inr [Client_key_sequence [4, - 5]]
   \<and> int_of_str sample_python ''x'' = Inl (Exn ValueError Unspecified)
   \<and> (\<exists>e. KeySequenceCommand_run_with_client sample_python \<lparr>key_sequence = [''4'', ''x'']\<rparr> = Inl e)"
proof -
  have a: "int_of_str sample_python ''4'' = Inr 4" by code_simp
  have b: "int_of_str sample_python ''-5'' = Inr (- 5)" by code_simp
  have c: "int_of_str sample_python ''x'' = Inl (Exn ValueError Unspecified)" by code_simp
  have l: "list_all2 (\<lambda>s k. int_of_str sample_python s = Inr k)
             (key_sequence \<lparr>key_sequence = [''4'', ''-5'']\<rparr>) [4, - 5]"
    using a b by simp
  have f: "\<exists>s\<in>set (key_sequence \<lparr>key_sequence = [''4'', ''x'']\<rparr>). \<exists>e. int_of_str sample_python s = Inl e"
    using c by simp
  show ?thesis
    using a b c l f
      key_codes_passed_unchecked [of "\<lparr>key = 4, duration = Some (1 / 2 :: real)\<rparr>"
        sample_python "\<lparr>key_sequence = [''4'', ''-5'']\<rparr>"]
      key_codes_passed_unchecked [of "\<lparr>key = 4, duration = Some (1 / 2 :: real)\<rparr>"
        sample_python "\<lparr>key_sequence = [''4'', ''x'']\<rparr>"]
    by simp
qed

text \<open>
  The claim as first stated has a negative key code rejected before the client is called.
  Neither command checks the sign: \<^verbatim>\<open>key\<close> with the code \<open>-1\<close> calls
  \<^verbatim>\<open>client.key(keycode=-1)\<close>, and \<^verbatim>\<open>key-sequence\<close> with the string \<^verbatim>\<open>-5\<close> calls
  \<^verbatim>\<open>client.key_sequence([-5])\<close>.
\<close>

theorem key_codes_passed_unchecked_counterexample:
  "KeyCommand_run_with_client \<lparr>key = - 1, duration = (None :: real option)\<rparr> = [Client_key (- 1) None]
   \<and> KeySequenceCommand_run_with_client sample_python \<lparr>key_sequence = [''-5'']\<rparr> =
       Inr [Client_key_sequence [- 5]]"
  by code_simp

section \<open>Properties of the stream configuration\<close>

lemma py_eq_optional_int: "py_eq P (optional_int n) (optional_int n)"
  by (cases n) (simp_all add: optional_int_def)

lemmas guard_simps =
  override_guard_def py_hasattr_def py_getattr_def namespace_vars_def replace_underscore_def
  config_get_def py_eq_optional_int base_config_def

lemma apply_streaming:
  "apply_preset P args (streaming_preset P) (base_config args) =
     override_all (streaming_preset P) (base_config args)"
  by (simp add: streaming_preset_def guard_simps)

lemma apply_low_latency:
  "apply_preset P args (low_latency_preset P) (base_config args) =
     override_all (low_latency_preset P) (base_config args)"
  by (simp add: low_latency_preset_def guard_simps)

lemma apply_high_quality:
  "apply_preset P args (high_quality_preset P) (base_config args) =
     override_all (high_quality_preset P) (base_config args)"
  by (simp add: high_quality_preset_def guard_simps)

lemma result_streaming:
  "override_all (streaming_preset P) (base_config args) =
     [(''fps'', PInt 30),
      (''format'', PStr (format args)),
      (''compression_quality'', PFloat (float_literal P ''0.8'')),
      (''scale_factor'', PFloat (scale_factor args)),
      (''keyframe_interval'', PInt 30),
      (''h264_profile'', PStr ''baseline''),
      (''max_bitrate'', PInt 4000),
      (''buffer_size'', PInt 2000),
      (''allow_frame_reordering'', PBool False),
      (''realtime_optimization'', PBool True)]"
  by (simp add: streaming_preset_def base_config_def)

lemma result_low_latency:
  "override_all (low_latency_preset P) (base_config args) =
     [(''fps'', PInt 60),
      (''format'', PStr (format args)),
      (''compression_quality'', PFloat (float_literal P ''0.7'')),
      (''scale_factor'', PFloat (scale_factor args)),
      (''keyframe_interval'', PInt 15),
      (''h264_profile'', PStr ''baseline''),
      (''max_bitrate'', PInt 6000),
      (''buffer_size'', PInt 1000),
      (''allow_frame_reordering'', PBool False),
      (''realtime_optimization'', PBool True)]"
  by (simp add: low_latency_preset_def base_config_def)

lemma result_high_quality:
  "override_all (high_quality_preset P) (base_config args) =
     [(''fps'', PInt 30),
      (''format'', PStr (format args)),
      (''compression_quality'', PFloat (float_literal P ''0.9'')),
      (''scale_factor'', PFloat (scale_factor args)),
      (''keyframe_interval'', PInt 60),
      (''h264_profile'', PStr ''high''),
      (''max_bitrate'', PInt 8000),
      (''buffer_size'', PInt 4000),
      (''allow_frame_reordering'', PBool False),
      (''realtime_optimization'', PBool True)]"
  by (simp add: high_quality_preset_def base_config_def)

lemma holds_streaming:
  "\<forall>kv\<in>set (streaming_preset P).
     map_of (override_all (streaming_preset P) (base_config args)) (fst kv) = Some (snd kv)"
  unfolding result_streaming by (simp add: streaming_preset_def)

lemma holds_low_latency:
  "\<forall>kv\<in>set (low_latency_preset P).
     map_of (override_all (low_latency_preset P) (base_config args)) (fst kv) = Some (snd kv)"
  unfolding result_low_latency by (simp add: low_latency_preset_def)

lemma holds_high_quality:
  "\<forall>kv\<in>set (high_quality_preset P).
     map_of (override_all (high_quality_preset P) (base_config args)) (fst kv) = Some (snd kv)"
  unfolding result_high_quality by (simp add: high_quality_preset_def)

lemma hyphenated_absent:
  fixes args :: "'f stream_args" and P :: "'f python"
  shows "\<forall>kv\<in>set (streaming_preset P).
           fst kv \<noteq> ''fps'' \<longrightarrow> \<not> py_hasattr args (replace_underscore (fst kv))"
    and "\<forall>kv\<in>set (low_latency_preset P).
           fst kv \<noteq> ''fps'' \<longrightarrow> \<not> py_hasattr args (replace_underscore (fst kv))"
    and "\<forall>kv\<in>set (high_quality_preset P).
           fst kv \<noteq> ''fps'' \<longrightarrow> \<not> py_hasattr args (replace_underscore (fst kv))"
  by (simp_all add: streaming_preset_def low_latency_preset_def high_quality_preset_def
      py_hasattr_def py_getattr_def namespace_vars_def replace_underscore_def)

lemma build_with_preset:
  assumes "preset args = Some p" and "p \<noteq> []" and "map_of (preset_configs P) p = Some items"
  shows "build_stream_config P args = apply_preset P args items (base_config args)"
  using assms by (simp add: build_stream_config_def)

text \<open>
  Claim C8. When the preset is \<^verbatim>\<open>streaming\<close>, \<^verbatim>\<open>low-latency\<close> or \<^verbatim>\<open>high-quality\<close>,
  the configuration built is the base configuration with every item of the preset stored
  unconditionally (the guarded loop equals the loop without the guard), so every key of
  the preset holds the preset's value whatever the user supplied. For every key of the
  preset but \<^verbatim>\<open>fps\<close> the guard looks for an attribute with a hyphen in its name, which
  the namespace does not have; for \<^verbatim>\<open>fps\<close> the attribute exists and the guard compares
  it with the configuration's entry, which was copied from it.
\<close>

theorem preset_overrides_user_values:
  fixes args :: "'f stream_args" and P :: "'f python"
  assumes "preset args = Some p" and "p \<in> {''streaming'', ''low-latency'', ''high-quality''}"
  shows "\<exists>items. map_of (preset_configs P) p = Some items
           \<and> build_stream_config P args = override_all items (base_config args)
           \<and> (\<forall>kv\<in>set items. map_of (build_stream_config P args) (fst kv) = Some (snd kv))
           \<and> (\<forall>kv\<in>set items. fst kv \<noteq> ''fps'' \<longrightarrow> \<not> py_hasattr args (replace_underscore (fst kv)))"
proof -
  consider "p = ''streaming''" | "p = ''low-latency''" | "p = ''high-quality''"
    using assms(2) by blast
  then show ?thesis
  proof cases
    case 1
    have m: "map_of (preset_configs P) p = Some (streaming_preset P)"
      using 1 by (simp add: preset_configs_def)
    have "p \<noteq> []" using 1 by simp
    then have b: "build_stream_config P args = override_all (streaming_preset P) (base_config args)"
      using build_with_preset [OF assms(1) _ m] apply_streaming by simp
    show ?thesis
      using m b holds_streaming [of P args] hyphenated_absent(1) [of P args] by simp
  next
    case 2
    have m: "map_of (preset_configs P) p = Some (low_latency_preset P)"
      using 2 by (simp add: preset_configs_def)
    have "p \<noteq> []" using 2 by simp
    then have b: "build_stream_config P args = override_all (low_latency_preset P) (base_config args)"
      using build_with_preset [OF assms(1) _ m] apply_low_latency by simp
    show ?thesis
      using m b holds_low_latency [of P args] hyphenated_absent(2) [of P args] by simp
  next
    case 3
    have m: "map_of (preset_configs P) p = Some (high_quality_preset P)"
      using 3 by (simp add: preset_configs_def)
    have "p \<noteq> []" using 3 by simp
    then have b: "build_stream_config P args = override_all (high_quality_preset P) (base_config args)"
      using build_with_preset [OF assms(1) _ m] apply_high_quality by simp
    show ?thesis
      using m b holds_high_quality [of P args] hyphenated_absent(3) [of P args] by simp
  qed
qed

theorem preset_overrides_user_values_witness:
  "preset sample_args = Some ''low-latency''
   \<and> base_config sample_args =
       [(''fps'', PInt 24),
        (''format'', PStr ''h264''),
        (''compression_quality'', PFloat (1 / 2)),
        (''scale_factor'', PFloat 1),
        (''keyframe_interval'', PInt 45),
        (''h264_profile'', PStr ''main''),
        (''max_bitrate'', PInt 9000),
        (''buffer_size'', PInt 500),
        (''allow_frame_reordering'', PBool True),
        (''realtime_optimization'', PBool False)]
   \<and> build_stream_config sample_python sample_args =
       [(''fps'', PInt 60),
        (''format'', PStr ''h264''),
        (''compression_quality'', PFloat (7 / 10)),
        (''scale_factor'', PFloat 1),
        (''keyframe_interval'', PInt 15),
        (''h264_profile'', PStr ''baseline''),
        (''max_bitrate'', PInt 6000),
        (''buffer_size'', PInt 1000),
        (''allow_frame_reordering'', PBool False),
        (''realtime_optimization'', PBool True)]"
proof -
  have h1: "preset sample_args = Some ''low-latency''" by (simp add: sample_args_def)
  have h2: "''low-latency'' \<in> {''streaming'', ''low-latency'', ''high-quality''}" by simp
  obtain items where items: "map_of (preset_configs sample_python) ''low-latency'' = Some items"
    "build_stream_config sample_python sample_args = override_all items (base_config sample_args)"
    using preset_overrides_user_values [OF h1 h2, of sample_python] by blast
  have "items = low_latency_preset sample_python"
    using items(1) by (simp add: preset_configs_def)
  then have "build_stream_config sample_python sample_args =
      override_all (low_latency_preset sample_python) (base_config sample_args)"
    using items(2) by simp
  also have "\<dots> =
       [(''fps'', PInt 60),
        (''format'', PStr ''h264''),
        (''compression_quality'', PFloat (7 / 10)),
        (''scale_factor'', PFloat 1),
        (''keyframe_interval'', PInt 15),
        (''h264_profile'', PStr ''baseline''),
        (''max_bitrate'', PInt 6000),
        (''buffer_size'', PInt 1000),
        (''allow_frame_reordering'', PBool False),
        (''realtime_optimization'', PBool True)]"
    by (simp add: result_low_latency sample_args_def sample_python_def sample_literals_def)
  finally show ?thesis
    using h1 by (simp add: base_config_def sample_args_def optional_int_def)
qed

section \<open>Properties of the swipe interpolator\<close>

lemma sqrt_10000: "sqrt (10000 :: real) = 100"
  by (rule real_sqrt_unique) simp_all

lemma distance_sample:
  "distance \<lparr>point_x = 0, point_y = 0\<rparr> \<lparr>point_x = 100, point_y = 0\<rparr> = 100"
  by (simp add: distance_def sqrt_10000)

lemma upt_1_4: "[Suc 0 ..< 4] = [1, 2, 3]"
  by code_simp

lemma floor_100_30: "\<lfloor>(100::real) / 30\<rfloor> = 3"
  by (rule floor_unique) simp_all

lemma steps_sample: "steps 100 25 = 3"
  by (simp add: steps_def)

lemma interpolate_sample:
  "interpolate \<lparr>point_x = 0, point_y = 0\<rparr> \<lparr>point_x = 100, point_y = 0\<rparr> 25 =
     [\<lparr>point_x = 25, point_y = 0\<rparr>, \<lparr>point_x = 50, point_y = 0\<rparr>,
      \<lparr>point_x = 75, point_y = 0\<rparr>]"
  by (simp add: interpolate_def distance_sample steps_sample upt_1_4 lerp_def)

lemma lerp_not_start:
  assumes "0 < t" and "0 < distance a b"
  shows "lerp a b t \<noteq> a"
proof
  assume eq: "lerp a b t = a"
  have "point_x (lerp a b t) = point_x a" and "point_y (lerp a b t) = point_y a"
    using eq by simp_all
  then have "t * (point_x b - point_x a) = 0" and "t * (point_y b - point_y a) = 0"
    by (simp_all add: lerp_def)
  then have "point_x b - point_x a = 0" and "point_y b - point_y a = 0"
    using assms(1) by simp_all
  then have "distance a b = 0" by (simp add: distance_def)
  then show False using assms(2) by simp
qed

lemma lerp_not_end:
  assumes "t < 1" and "0 < distance a b"
  shows "lerp a b t \<noteq> b"
proof
  assume eq: "lerp a b t = b"
  have "point_x (lerp a b t) = point_x b" and "point_y (lerp a b t) = point_y b"
    using eq by simp_all
  then have "(1 - t) * (point_x b - point_x a) = 0" and "(1 - t) * (point_y b - point_y a) = 0"
    by (simp_all add: lerp_def algebra_simps)
  then have "point_x b - point_x a = 0" and "point_y b - point_y a = 0"
    using assms(1) by simp_all
  then have "distance a b = 0" by (simp add: distance_def)
  then show False using assms(2) by simp
qed

text \<open>
  Claim C6 (as amended). For \<open>0 < delta < d\<close> the interpolator produces the points
  \<open>start + (i * delta / d) * (end - start)\<close> for \<open>i\<close> from 1 on that lie strictly
  between the two endpoints: \<open>floor (d / delta)\<close> points when \<open>delta\<close> does not divide
  \<open>d\<close>, and one less when it does (the point at \<open>i = d / delta\<close> would be the end
  point). There is at least one point, every parameter lies in \<open>(0, 1)\<close>, and no point
  is the start or the end.
\<close>

theorem interpolate_points:
  assumes "0 < delta" and "delta < distance a b"
  shows "length (interpolate a b delta) =
           (if real (nat \<lfloor>distance a b / delta\<rfloor>) * delta = distance a b
            then nat \<lfloor>distance a b / delta\<rfloor> - 1
            else nat \<lfloor>distance a b / delta\<rfloor>)
       \<and> 1 \<le> length (interpolate a b delta)
       \<and> (\<forall>i. 1 \<le> i \<and> i \<le> length (interpolate a b delta) \<longrightarrow>
             interpolate a b delta ! (i - 1) = lerp a b (real i * delta / distance a b)
             \<and> 0 < real i * delta / distance a b
             \<and> real i * delta / distance a b < 1
             \<and> interpolate a b delta ! (i - 1) \<noteq> a
             \<and> interpolate a b delta ! (i - 1) \<noteq> b)"
proof -
  let ?d = "distance a b"
  let ?n = "nat \<lfloor>?d / delta\<rfloor>"
  let ?m = "steps ?d delta"
  have dpos: "0 < ?d" using assms by linarith
  have "1 < ?d / delta" using assms by simp
  then have fl: "1 \<le> \<lfloor>?d / delta\<rfloor>" by linarith
  then have n1: "1 \<le> ?n" by linarith
  have "real ?n = of_int \<lfloor>?d / delta\<rfloor>" using fl by simp
  also have "\<dots> \<le> ?d / delta" by simp
  finally have nle: "real ?n * delta \<le> ?d" using assms(1) by (simp add: pos_le_divide_eq)
  have m: "?m = (if real ?n * delta = ?d then ?n - 1 else ?n)"
    using nle by (auto simp: steps_def Let_def)
  have ip: "interpolate a b delta =
      map (\<lambda>i. lerp a b ((real i * delta) / ?d)) [1 ..< Suc ?m]"
    using assms by (simp add: interpolate_def Let_def)
  have len: "length (interpolate a b delta) = ?m" by (simp add: ip del: upt_Suc)
  have m1: "1 \<le> ?m"
  proof (cases "real ?n * delta = ?d")
    case True
    then have "delta < real ?n * delta" using assms(2) by simp
    then have "1 < real ?n" using assms(1) by simp
    then have "2 \<le> ?n" by linarith
    then show ?thesis using m True by simp
  next
    case False
    then show ?thesis using m n1 by simp
  qed
  have inner: "real i * delta < ?d" if i: "1 \<le> i \<and> i \<le> ?m" for i
  proof (cases "real ?n * delta = ?d")
    case True
    then have "i \<le> ?n - 1" using i m by simp
    then have "real i < real ?n" using n1 by linarith
    then have "real i * delta < real ?n * delta" using assms(1) by simp
    then show ?thesis using True by simp
  next
    case False
    then have "i \<le> ?n" using i m by simp
    then have "real i * delta \<le> real ?n * delta" using assms(1) by simp
    moreover have "real ?n * delta < ?d" using False nle by simp
    ultimately show ?thesis by simp
  qed
  have pts: "interpolate a b delta ! (i - 1) = lerp a b (real i * delta / ?d)
             \<and> 0 < real i * delta / ?d \<and> real i * delta / ?d < 1
             \<and> interpolate a b delta ! (i - 1) \<noteq> a
             \<and> interpolate a b delta ! (i - 1) \<noteq> b"
    if i: "1 \<le> i \<and> i \<le> ?m" for i
  proof -
    have lt: "i - 1 < ?m" using i by linarith
    have "[1 ..< Suc ?m] ! (i - 1) = i" using i lt by (simp add: nth_upt del: upt_Suc)
    then have nth: "interpolate a b delta ! (i - 1) = lerp a b (real i * delta / ?d)"
      using lt by (simp add: ip del: upt_Suc)
    have lt1: "real i * delta / ?d < 1" using inner [OF i] dpos by simp
    have "0 < real i * delta" using i assms(1) by simp
    then have pos: "0 < real i * delta / ?d" using dpos by simp
    show ?thesis
      using nth lt1 pos lerp_not_start [OF pos dpos] lerp_not_end [OF lt1 dpos] by simp
  qed
  have A: "length (interpolate a b delta) =
           (if real ?n * delta = ?d then ?n - 1 else ?n)"
    using len m by simp
  have B: "1 \<le> length (interpolate a b delta)" using len m1 by simp
  have C: "\<forall>i. 1 \<le> i \<and> i \<le> length (interpolate a b delta) \<longrightarrow>
             interpolate a b delta ! (i - 1) = lerp a b (real i * delta / ?d)
             \<and> 0 < real i * delta / ?d
             \<and> real i * delta / ?d < 1
             \<and> interpolate a b delta ! (i - 1) \<noteq> a
             \<and> interpolate a b delta ! (i - 1) \<noteq> b"
  proof (intro allI impI)
    fix i
    assume "1 \<le> i \<and> i \<le> length (interpolate a b delta)"
    then have "1 \<le> i \<and> i \<le> ?m" using len by simp
    then show "interpolate a b delta ! (i - 1) = lerp a b (real i * delta / ?d)
             \<and> 0 < real i * delta / ?d
             \<and> real i * delta / ?d < 1
             \<and> interpolate a b delta ! (i - 1) \<noteq> a
             \<and> interpolate a b delta ! (i - 1) \<noteq> b"
      by (rule pts)
  qed
  show ?thesis using A B C by blast
qed

text \<open>
  For the start \<open>(0, 0)\<close> and the end \<open>(100, 0)\<close>: with \<open>delta = 25\<close>,
  \<open>floor (100 / 25) = 4\<close> and the three points \<open>(25, 0)\<close>, \<open>(50, 0)\<close>, \<open>(75, 0)\<close>; with
  \<open>delta = 30\<close>, \<open>floor (100 / 30) = 3\<close> and three points.
\<close>

theorem interpolate_points_witness:
  "(0::real) < 25
   \<and> 25 < distance \<lparr>point_x = 0, point_y = 0\<rparr> \<lparr>point_x = 100, point_y = 0\<rparr>
   \<and> nat \<lfloor>distance \<lparr>point_x = 0, point_y = 0\<rparr> \<lparr>point_x = 100, point_y = 0\<rparr> / 25\<rfloor> = 4
   \<and> length (interpolate \<lparr>point_x = 0, point_y = 0\<rparr> \<lparr>point_x = 100, point_y = 0\<rparr> 25) = 3
   \<and> interpolate \<lparr>point_x = 0, point_y = 0\<rparr> \<lparr>point_x = 100, point_y = 0\<rparr> 25 =
       [\<lparr>point_x = 25, point_y = 0\<rparr>, \<lparr>point_x = 50, point_y = 0\<rparr>,
        \<lparr>point_x = 75, point_y = 0\<rparr>]
   \<and> (0::real) < 30
   \<and> 30 < distance \<lparr>point_x = 0, point_y = 0\<rparr> \<lparr>point_x = 100, point_y = 0\<rparr>
   \<and> nat \<lfloor>distance \<lparr>point_x = 0, point_y = 0\<rparr> \<lparr>point_x = 100, point_y = 0\<rparr> / 30\<rfloor> = 3
   \<and> length (interpolate \<lparr>point_x = 0, point_y = 0\<rparr> \<lparr>point_x = 100, point_y = 0\<rparr> 30) = 3"
proof -
  let ?a = "\<lparr>point_x = 0, point_y = 0\<rparr> :: real Point"
  let ?b = "\<lparr>point_x = 100, point_y = 0\<rparr> :: real Point"
  have h1: "(0::real) < 25" by simp
  have h2: "25 < distance ?a ?b" by (simp add: distance_sample)
  have n: "nat \<lfloor>distance ?a ?b / 25\<rfloor> = 4" by (simp add: distance_sample)
  have g1: "(0::real) < 30" by simp
  have g2: "30 < distance ?a ?b" by (simp add: distance_sample)
  have n': "nat \<lfloor>distance ?a ?b / 30\<rfloor> = 3" by (simp add: distance_sample floor_100_30)
  have l: "length (interpolate ?a ?b 25) = 3"
    using interpolate_points [OF h1 h2] n by (simp add: distance_sample)
  have l': "length (interpolate ?a ?b 30) = 3"
    using interpolate_points [OF g1 g2] n' by (simp add: distance_sample)
  show ?thesis
    using h2 n g2 n' l l' by (simp add: interpolate_sample)
qed

text \<open>
  The claim as first stated gives \<open>floor (d / delta)\<close> points for every input. For the
  input of its own example that is 4, while the interpolator yields the 3 points of the
  example: the fourth, at the parameter \<open>4 * 25 / 100 = 1\<close>, is the end point.
\<close>

theorem interpolate_points_counterexample:
  "nat \<lfloor>distance \<lparr>point_x = 0, point_y = 0\<rparr> \<lparr>point_x = 100, point_y = 0\<rparr> / 25\<rfloor> = 4
   \<and> length (interpolate \<lparr>point_x = 0, point_y = 0\<rparr> \<lparr>point_x = 100, point_y = 0\<rparr> 25) = 3
   \<and> length (interpolate \<lparr>point_x = 0, point_y = 0\<rparr> \<lparr>point_x = 100, point_y = 0\<rparr> 25) \<noteq>
       nat \<lfloor>distance \<lparr>point_x = 0, point_y = 0\<rparr> \<lparr>point_x = 100, point_y = 0\<rparr> / 25\<rfloor>
   \<and> lerp \<lparr>point_x = 0, point_y = 0\<rparr> \<lparr>point_x = 100, point_y = 0\<rparr>
        (real 4 * 25 / distance \<lparr>point_x = 0, point_y = 0\<rparr> \<lparr>point_x = 100, point_y = 0\<rparr>) =
       \<lparr>point_x = 100, point_y = 0\<rparr>"
  by (simp add: interpolate_sample distance_sample lerp_def)

end
